theory Spec2Isabelle
  imports Complex_Main
begin

section \<open>Python values\<close>

text \<open>
  The dispatch layer of \<^verbatim>\<open>mcp_server.py\<close> handles JSON-shaped Python values: the
  arguments of a tool call, the envelopes it returns, and opaque handles that the Composer
  functions hand back (a draft folder, a result object). A dict keeps its insertion order,
  so it is an association list; every dict of this program has string keys.
  The floats of Python are not constructed here: \<open>'f\<close> is the type of the float values
  (the doubles of CPython, infinities and NaN included), and what the program does with
  them is taken from outside, see \<open>float_ops\<close> below.
\<close>

datatype 'f pyval =
    PNone
  | PBool bool
  | PInt int
  | PFloat 'f
  | PStr string
  | PList "'f pyval list"
  | PDict "(string \<times> 'f pyval) list"
  | PObj string

type_synonym 'f pydict = "(string \<times> 'f pyval) list"

text \<open>
  An exception is an instance of Python's \<^verbatim>\<open>Exception\<close>: its class name and the text
  that \<^verbatim>\<open>str(e)\<close> gives.
\<close>

datatype exn = Exn (exn_class: string) (exn_str: string)

text \<open>
  Floating point as CPython provides it: the double a decimal literal of the source
  denotes (\<^verbatim>\<open>3.0\<close>, \<^verbatim>\<open>0.8\<close>), the subtraction of two doubles (rounded, and
  never raising), the conversion of an integer (\<^verbatim>\<open>OverflowError\<close> when the integer is
  too large for a double), the truth value of a double and its \<^verbatim>\<open>repr\<close>. None of
  this is defined here; every function that needs it takes it as a parameter.
\<close>

record 'f float_ops =
  float_lit :: "rat \<Rightarrow> 'f"
  float_sub :: "'f \<Rightarrow> 'f \<Rightarrow> 'f"
  float_of_int :: "int \<Rightarrow> exn + 'f"
  float_nonzero :: "'f \<Rightarrow> bool"
  float_repr :: "'f \<Rightarrow> string"

fun type_name :: "'f pyval \<Rightarrow> string" where
  "type_name PNone = ''NoneType''"
| "type_name (PBool _) = ''bool''"
| "type_name (PInt _) = ''int''"
| "type_name (PFloat _) = ''float''"
| "type_name (PStr _) = ''str''"
| "type_name (PList _) = ''list''"
| "type_name (PDict _) = ''dict''"
| "type_name (PObj c) = c"

definition quoted :: "string \<Rightarrow> string" where
  "quoted s = [CHR 0x27] @ s @ [CHR 0x27]"

text \<open>\<^verbatim>\<open>d[k]\<close> on a missing key raises \<^verbatim>\<open>KeyError(k)\<close>, whose \<^verbatim>\<open>str\<close> is the
  \<^verbatim>\<open>repr\<close> of the key; the keys this program indexes with are fixed identifiers,
  whose \<^verbatim>\<open>repr\<close> is the key between single quotes.\<close>

definition KeyError :: "string \<Rightarrow> exn" where
  "KeyError k = Exn ''KeyError'' (quoted k)"

definition TypeError :: "string \<Rightarrow> exn" where
  "TypeError m = Exn ''TypeError'' m"

definition AttributeError :: "string \<Rightarrow> exn" where
  "AttributeError m = Exn ''AttributeError'' m"

text \<open>Truth value testing, as \<^verbatim>\<open>not draft_id\<close> and \<^verbatim>\<open>arguments or {}\<close> use it.\<close>

fun truthy :: "'f float_ops \<Rightarrow> 'f pyval \<Rightarrow> bool" where
  "truthy fo PNone = False"
| "truthy fo (PBool b) = b"
| "truthy fo (PInt i) = (i \<noteq> 0)"
| "truthy fo (PFloat x) = float_nonzero fo x"
| "truthy fo (PStr s) = (s \<noteq> [])"
| "truthy fo (PList xs) = (xs \<noteq> [])"
| "truthy fo (PDict kvs) = (kvs \<noteq> [])"
| "truthy fo (PObj _) = True"

text \<open>\<^verbatim>\<open>args.get(k, default)\<close> and \<^verbatim>\<open>args[k]\<close> on a dict.\<close>

definition dict_get :: "'f pydict \<Rightarrow> string \<Rightarrow> 'f pyval \<Rightarrow> 'f pyval" where
  "dict_get d k dflt = (case map_of d k of None \<Rightarrow> dflt | Some v \<Rightarrow> v)"

definition dict_item :: "'f pydict \<Rightarrow> string \<Rightarrow> exn + 'f pyval" where
  "dict_item d k = (case map_of d k of None \<Rightarrow> Inl (KeyError k) | Some v \<Rightarrow> Inr v)"

text \<open>\<^verbatim>\<open>args.get\<close> exists on a dict only; on any other value the attribute lookup raises.\<close>

definition as_dict :: "'f pyval \<Rightarrow> exn + 'f pydict" where
  "as_dict v = (case v of
       PDict kvs \<Rightarrow> Inr kvs
     | _ \<Rightarrow> Inl (AttributeError (quoted (type_name v) @ '' object has no attribute '' @ quoted ''get'')))"

text \<open>
  The binary \<^verbatim>\<open>-\<close>. \<^verbatim>\<open>bool\<close> is a subclass of \<^verbatim>\<open>int\<close>. Between two integers
  the difference is the exact integer. When one operand is a float, the other, if an
  integer, is first converted to a float, which raises \<^verbatim>\<open>OverflowError\<close> when it is
  too large; the result is the float difference. When an operand is no number at all,
  the operator raises \<^verbatim>\<open>TypeError\<close>.
\<close>

fun int_val :: "'f pyval \<Rightarrow> int option" where
  "int_val (PBool b) = Some (if b then 1 else 0)"
| "int_val (PInt i) = Some i"
| "int_val _ = None"

fun is_number :: "'f pyval \<Rightarrow> bool" where
  "is_number (PBool _) = True"
| "is_number (PInt _) = True"
| "is_number (PFloat _) = True"
| "is_number _ = False"

text \<open>The operand of a float subtraction as a float. \<open>py_sub\<close> applies it to numbers
  only, so its last case is never reached there.\<close>

definition to_float :: "'f float_ops \<Rightarrow> 'f pyval \<Rightarrow> exn + 'f" where
  "to_float fo v = (case v of
       PFloat x \<Rightarrow> Inr x
     | PInt i \<Rightarrow> float_of_int fo i
     | PBool b \<Rightarrow> float_of_int fo (if b then 1 else 0)
     | _ \<Rightarrow> Inl (Exn ''TypeError'' ''must be real number''))"

definition py_sub :: "'f float_ops \<Rightarrow> 'f pyval \<Rightarrow> 'f pyval \<Rightarrow> exn + 'f pyval" where
  "py_sub fo a b =
     (case (int_val a, int_val b) of
        (Some i, Some j) \<Rightarrow> Inr (PInt (i - j))
      | _ \<Rightarrow>
          if is_number a \<and> is_number b
          then (case to_float fo a of
                  Inl x \<Rightarrow> Inl x
                | Inr u \<Rightarrow> (case to_float fo b of
                              Inl x \<Rightarrow> Inl x
                            | Inr v \<Rightarrow> Inr (PFloat (float_sub fo u v))))
          else Inl (TypeError (''unsupported operand type(s) for -: '' @
                     quoted (type_name a) @ '' and '' @ quoted (type_name b))))"

text \<open>
  \<^verbatim>\<open>for style in v\<close>: a list yields its elements, a string its characters, a dict its
  keys; the other values are not iterable.
\<close>

definition py_iter :: "'f pyval \<Rightarrow> exn + 'f pyval list" where
  "py_iter v = (case v of
       PList xs \<Rightarrow> Inr xs
     | PStr s \<Rightarrow> Inr (map (\<lambda>c. PStr [c]) s)
     | PDict kvs \<Rightarrow> Inr (map (\<lambda>kv. PStr (fst kv)) kvs)
     | _ \<Rightarrow> Inl (TypeError (quoted (type_name v) @ '' object is not iterable'')))"

section \<open>The Composer, the environment and the server state\<close>

text \<open>
  A Composer function (\<^verbatim>\<open>get_or_create_draft\<close>, \<^verbatim>\<open>add_video_track\<close>,
  \<^verbatim>\<open>add_image_impl\<close>, ...) is an external collaborator. A call is recorded with the
  function's name, its positional arguments and its keyword arguments in the order the
  source writes them.
\<close>

record 'f comp_call =
  fn :: string
  pos :: "'f pyval list"
  kw :: "'f pydict"

text \<open>
  What the module imports or draws from outside: the import flag
  \<^verbatim>\<open>CAPCUT_AVAILABLE\<close>, \<^verbatim>\<open>str(uuid.uuid4())\<close>, the Composer (any function of the
  call and of the outside world \<open>'w\<close>, returning a value or raising),
  the constructor \<^verbatim>\<open>TextStyleRange(**style)\<close>, \<^verbatim>\<open>traceback.format_exc()\<close> (the
  text printed for the exception being handled) and the floating point of the
  interpreter.
\<close>

record ('f, 'w) env =
  CAPCUT_AVAILABLE :: bool
  uuid4 :: "'w \<Rightarrow> string \<times> 'w"
  composer :: "'f comp_call \<Rightarrow> 'w \<Rightarrow> (exn + 'f pyval) \<times> 'w"
  TextStyleRange :: "'f pydict \<Rightarrow> exn + 'f pyval"
  format_exc :: "exn \<Rightarrow> string"
  floats :: "'f float_ops"

text \<open>
  \<^verbatim>\<open>CapCutMCPServer\<close>: \<open>drafts\<close> is \<^verbatim>\<open>self.drafts\<close>, a dict from a draft id to the
  session dict that \<^verbatim>\<open>_create_draft\<close> stores. \<open>world\<close> is the state of the outside
  world and \<open>log\<close> lists the Composer calls made so far, oldest first, each with what it
  returned or raised (what a recording test double would hold).
\<close>

record ('f, 'w) server =
  drafts :: "string \<rightharpoonup> 'f pydict"
  world :: 'w
  log :: "('f comp_call \<times> (exn + 'f pyval)) list"

definition invoke :: "('f, 'w) env \<Rightarrow> string \<Rightarrow> 'f pyval list \<Rightarrow> 'f pydict \<Rightarrow> ('f, 'w) server
    \<Rightarrow> (exn + 'f pyval) \<times> ('f, 'w) server" where
  "invoke e f ps kws s =
     (let c = \<lparr>fn = f, pos = ps, kw = kws\<rparr>;
          rw = composer e c (world s)
      in (fst rw, s\<lparr>world := snd rw, log := log s @ [(c, fst rw)]\<rparr>))"

section \<open>The tool catalog\<close>

text \<open>\<^verbatim>\<open>TOOLS\<close>: each tool's name with the fields its schema lists as \<^verbatim>\<open>required\<close>.\<close>

definition TOOLS :: "(string \<times> string list) list" where
  "TOOLS =
    [(''create_draft'', []),
     (''add_video'', [''video_url'']),
     (''add_audio'', [''audio_url'']),
     (''add_image'', [''image_url'']),
     (''add_text'', [''text'', ''start'', ''end'']),
     (''add_subtitle'', [''srt_path'']),
     (''add_effect'', [''effect_type'']),
     (''add_sticker'', [''sticker_url'']),
     (''save_draft'', [''draft_id''])]"

section \<open>The handlers of \<^verbatim>\<open>CapCutMCPServer\<close>\<close>

definition invalid_draft_id :: "'f pyval" where
  "invalid_draft_id = PDict [(''success'', PBool False), (''error'', PStr ''Invalid draft_id'')]"

definition success :: "'f pyval \<Rightarrow> 'f pyval" where
  "success result = PDict [(''success'', PBool True), (''result'', result)]"

text \<open>
  \<^verbatim>\<open>draft_id in self.drafts\<close> hashes the key: a list or a dict is unhashable and the
  test raises \<^verbatim>\<open>TypeError\<close>. The registry's keys are strings, so any other hashable
  value is not a key. The result is the session stored under the key, if any.
\<close>

definition registry_find :: "(string \<rightharpoonup> 'f pydict) \<Rightarrow> 'f pyval \<Rightarrow> exn + 'f pydict option" where
  "registry_find ds v = (case v of
       PStr k \<Rightarrow> Inr (ds k)
     | PList _ \<Rightarrow> Inl (TypeError (''unhashable type: '' @ quoted ''list''))
     | PDict _ \<Rightarrow> Inl (TypeError (''unhashable type: '' @ quoted ''dict''))
     | _ \<Rightarrow> Inr None)"

text \<open>
  Every handler but \<^verbatim>\<open>_create_draft\<close> has the same frame around its Composer call:
  \<^verbatim>\<open>
    draft_id = args.get("draft_id")
    if not draft_id or draft_id not in self.drafts:
        return {"success": False, "error": "Invalid draft_id"}
    draft_folder = self.drafts[draft_id]["folder"]
    result = impl(<keyword arguments>)
    return {"success": True, "result": result}
  \<close>
  \<open>with_draft\<close> is that frame; \<open>build\<close> evaluates the keyword arguments of the call, in
  the order of the source, and may raise while doing so.
\<close>

definition with_draft :: "('f, 'w) env \<Rightarrow> string \<Rightarrow> ('f pydict \<Rightarrow> 'f pyval \<Rightarrow> 'f pyval \<Rightarrow> exn + 'f pydict)
    \<Rightarrow> 'f pyval \<Rightarrow> ('f, 'w) server \<Rightarrow> (exn + 'f pyval) \<times> ('f, 'w) server" where
  "with_draft e impl build arguments s =
     (case as_dict arguments of
        Inl x \<Rightarrow> (Inl x, s)
      | Inr args \<Rightarrow>
          (let draft_id = dict_get args ''draft_id'' PNone in
           if \<not> truthy (floats e) draft_id then (Inr invalid_draft_id, s)
           else case registry_find (drafts s) draft_id of
                  Inl x \<Rightarrow> (Inl x, s)
                | Inr None \<Rightarrow> (Inr invalid_draft_id, s)
                | Inr (Some session) \<Rightarrow>
                    (case dict_item session ''folder'' of
                       Inl x \<Rightarrow> (Inl x, s)
                     | Inr draft_folder \<Rightarrow>
                         (case build args draft_id draft_folder of
                            Inl x \<Rightarrow> (Inl x, s)
                          | Inr kwargs \<Rightarrow>
                              (case invoke e impl [] kwargs s of
                                 (Inl x, s') \<Rightarrow> (Inl x, s')
                               | (Inr result, s') \<Rightarrow> (Inr (success result), s'))))))"

definition create_draft :: "('f, 'w) env \<Rightarrow> 'f pyval \<Rightarrow> ('f, 'w) server \<Rightarrow> (exn + 'f pyval) \<times> ('f, 'w) server" where
  "create_draft e arguments s =
     (case as_dict arguments of
        Inl x \<Rightarrow> (Inl x, s)
      | Inr args \<Rightarrow>
          (let width = dict_get args ''width'' (PInt 1080);
               height = dict_get args ''height'' (PInt 1920);
               u = uuid4 e (world s);
               draft_id = fst u;
               s1 = s\<lparr>world := snd u\<rparr>
           in case invoke e ''get_or_create_draft'' [PStr draft_id, width, height] [] s1 of
                (Inl x, s2) \<Rightarrow> (Inl x, s2)
              | (Inr draft_folder, s2) \<Rightarrow>
                  (Inr (PDict [(''success'', PBool True),
                               (''draft_id'', PStr draft_id),
                               (''draft_folder'', draft_folder),
                               (''width'', width),
                               (''height'', height)]),
                   s2\<lparr>drafts := (drafts s2)(draft_id \<mapsto>
                          [(''folder'', draft_folder), (''width'', width), (''height'', height)])\<rparr>)))"

definition add_video_kwargs :: "'f float_ops \<Rightarrow> 'f pydict \<Rightarrow> 'f pyval \<Rightarrow> 'f pyval \<Rightarrow> exn + 'f pydict" where
  "add_video_kwargs fo args draft_id draft_folder =
     (case dict_item args ''video_url'' of
        Inl x \<Rightarrow> Inl x
      | Inr video_url \<Rightarrow> Inr
          [(''draft_folder'', draft_folder),
           (''video_url'', video_url),
           (''start'', dict_get args ''start'' (PInt 0)),
           (''end'', dict_get args ''end'' PNone),
           (''target_start'', dict_get args ''target_start'' (PInt 0)),
           (''width'', dict_get args ''width'' (PInt 1080)),
           (''height'', dict_get args ''height'' (PInt 1920)),
           (''transform_x'', dict_get args ''transform_x'' (PInt 0)),
           (''transform_y'', dict_get args ''transform_y'' (PInt 0)),
           (''scale_x'', dict_get args ''scale_x'' (PInt 1)),
           (''scale_y'', dict_get args ''scale_y'' (PInt 1)),
           (''speed'', dict_get args ''speed'' (PFloat (float_lit fo 1))),
           (''track_name'', dict_get args ''track_name'' (PStr ''main'')),
           (''volume'', dict_get args ''volume'' (PFloat (float_lit fo 1))),
           (''transition'', dict_get args ''transition'' PNone),
           (''transition_duration'', dict_get args ''transition_duration'' (PFloat (float_lit fo (1 / 2)))),
           (''mask_type'', dict_get args ''mask_type'' PNone),
           (''background_blur'', dict_get args ''background_blur'' PNone)])"

definition add_video :: "('f, 'w) env \<Rightarrow> 'f pyval \<Rightarrow> ('f, 'w) server \<Rightarrow> (exn + 'f pyval) \<times> ('f, 'w) server" where
  "add_video e = with_draft e ''add_video_track'' (add_video_kwargs (floats e))"

definition add_audio_kwargs :: "'f float_ops \<Rightarrow> 'f pydict \<Rightarrow> 'f pyval \<Rightarrow> 'f pyval \<Rightarrow> exn + 'f pydict" where
  "add_audio_kwargs fo args draft_id draft_folder =
     (case dict_item args ''audio_url'' of
        Inl x \<Rightarrow> Inl x
      | Inr audio_url \<Rightarrow> Inr
          [(''draft_folder'', draft_folder),
           (''audio_url'', audio_url),
           (''start'', dict_get args ''start'' (PInt 0)),
           (''end'', dict_get args ''end'' PNone),
           (''target_start'', dict_get args ''target_start'' (PInt 0)),
           (''volume'', dict_get args ''volume'' (PFloat (float_lit fo 1))),
           (''speed'', dict_get args ''speed'' (PFloat (float_lit fo 1))),
           (''track_name'', dict_get args ''track_name'' (PStr ''audio_main'')),
           (''width'', dict_get args ''width'' (PInt 1080)),
           (''height'', dict_get args ''height'' (PInt 1920))])"

definition add_audio :: "('f, 'w) env \<Rightarrow> 'f pyval \<Rightarrow> ('f, 'w) server \<Rightarrow> (exn + 'f pyval) \<times> ('f, 'w) server" where
  "add_audio e = with_draft e ''add_audio_track'' (add_audio_kwargs (floats e))"

definition add_image_kwargs :: "'f float_ops \<Rightarrow> 'f pydict \<Rightarrow> 'f pyval \<Rightarrow> 'f pyval \<Rightarrow> exn + 'f pydict" where
  "add_image_kwargs fo args draft_id draft_folder =
     (case dict_item args ''image_url'' of
        Inl x \<Rightarrow> Inl x
      | Inr image_url \<Rightarrow>
          (case py_sub fo (dict_get args ''end'' (PFloat (float_lit fo 3))) (dict_get args ''start'' (PInt 0)) of
             Inl x \<Rightarrow> Inl x
           | Inr duration \<Rightarrow> Inr
               [(''draft_folder'', draft_folder),
                (''image_url'', image_url),
                (''start'', dict_get args ''start'' (PInt 0)),
                (''duration'', duration),
                (''width'', dict_get args ''width'' (PInt 1080)),
                (''height'', dict_get args ''height'' (PInt 1920)),
                (''transform_x'', dict_get args ''transform_x'' (PInt 0)),
                (''transform_y'', dict_get args ''transform_y'' (PInt 0)),
                (''scale_x'', dict_get args ''scale_x'' (PInt 1)),
                (''scale_y'', dict_get args ''scale_y'' (PInt 1)),
                (''track_name'', dict_get args ''track_name'' (PStr ''main''))]))"

definition add_image :: "('f, 'w) env \<Rightarrow> 'f pyval \<Rightarrow> ('f, 'w) server \<Rightarrow> (exn + 'f pyval) \<times> ('f, 'w) server" where
  "add_image e = with_draft e ''add_image_impl'' (add_image_kwargs (floats e))"

text \<open>
  \<^verbatim>\<open>_add_text\<close> first builds the style list:
  \<^verbatim>\<open>
    text_styles = []
    if "text_styles" in args:
        for style in args["text_styles"]:
            text_styles.append(TextStyleRange(**style))
  \<close>
  \<^verbatim>\<open>**style\<close> needs a mapping; the loop stops at the first element that raises.
\<close>

definition make_style :: "('f, 'w) env \<Rightarrow> 'f pyval \<Rightarrow> exn + 'f pyval" where
  "make_style e style = (case style of
       PDict kvs \<Rightarrow> TextStyleRange e kvs
     | _ \<Rightarrow> Inl (TypeError (''pyJianYingDraft.text_segment.TextStyleRange() argument after ** '' @
                       ''must be a mapping, not '' @ type_name style)))"

fun make_styles :: "('f, 'w) env \<Rightarrow> 'f pyval list \<Rightarrow> exn + 'f pyval list" where
  "make_styles e [] = Inr []"
| "make_styles e (style # rest) =
     (case make_style e style of
        Inl x \<Rightarrow> Inl x
      | Inr t \<Rightarrow> (case make_styles e rest of Inl x \<Rightarrow> Inl x | Inr ts \<Rightarrow> Inr (t # ts)))"

definition text_styles_of :: "('f, 'w) env \<Rightarrow> 'f pydict \<Rightarrow> exn + 'f pyval list" where
  "text_styles_of e args =
     (case map_of args ''text_styles'' of
        None \<Rightarrow> Inr []
      | Some v \<Rightarrow> (case py_iter v of Inl x \<Rightarrow> Inl x | Inr styles \<Rightarrow> make_styles e styles))"

definition add_text_kwargs :: "('f, 'w) env \<Rightarrow> 'f pydict \<Rightarrow> 'f pyval \<Rightarrow> 'f pyval \<Rightarrow> exn + 'f pydict" where
  "add_text_kwargs e args draft_id draft_folder =
     (case text_styles_of e args of
        Inl x \<Rightarrow> Inl x
      | Inr text_styles \<Rightarrow>
     (case dict_item args ''text'' of
        Inl x \<Rightarrow> Inl x
      | Inr text \<Rightarrow>
     (case dict_item args ''start'' of
        Inl x \<Rightarrow> Inl x
      | Inr start \<Rightarrow>
     (case dict_item args ''end'' of
        Inl x \<Rightarrow> Inl x
      | Inr end \<Rightarrow>
     (case py_sub (floats e) end start of
        Inl x \<Rightarrow> Inl x
      | Inr duration \<Rightarrow> Inr
          [(''draft_folder'', draft_folder),
           (''text'', text),
           (''start'', start),
           (''duration'', duration),
           (''color'', dict_get args ''font_color'' (PStr ''#ffffff'')),
           (''font_size'', dict_get args ''font_size'' (PInt 24)),
           (''track_name'', PStr ''text_main''),
           (''width'', dict_get args ''width'' (PInt 1080)),
           (''height'', dict_get args ''height'' (PInt 1920)),
           (''text_styles'', if text_styles \<noteq> [] then PList text_styles else PNone),
           (''shadow_enabled'', dict_get args ''shadow_enabled'' (PBool False)),
           (''shadow_color'', dict_get args ''shadow_color'' (PStr ''#000000'')),
           (''shadow_alpha'', dict_get args ''shadow_alpha'' (PFloat (float_lit (floats e) (4 / 5)))),
           (''shadow_angle'', dict_get args ''shadow_angle'' (PFloat (float_lit (floats e) 315))),
           (''shadow_distance'', dict_get args ''shadow_distance'' (PFloat (float_lit (floats e) 5))),
           (''shadow_smoothing'', dict_get args ''shadow_smoothing'' (PFloat (float_lit (floats e) 0))),
           (''background_color'', dict_get args ''background_color'' PNone),
           (''background_alpha'', dict_get args ''background_alpha'' (PFloat (float_lit (floats e) 1))),
           (''background_style'', dict_get args ''background_style'' (PInt 0)),
           (''background_round_radius'',
              dict_get args ''background_round_radius'' (PFloat (float_lit (floats e) 0)))])))))"

definition add_text :: "('f, 'w) env \<Rightarrow> 'f pyval \<Rightarrow> ('f, 'w) server \<Rightarrow> (exn + 'f pyval) \<times> ('f, 'w) server" where
  "add_text e = with_draft e ''add_text_impl'' (add_text_kwargs e)"

definition add_subtitle_kwargs :: "'f float_ops \<Rightarrow> 'f pydict \<Rightarrow> 'f pyval \<Rightarrow> 'f pyval \<Rightarrow> exn + 'f pydict" where
  "add_subtitle_kwargs fo args draft_id draft_folder =
     (case dict_item args ''srt_path'' of
        Inl x \<Rightarrow> Inl x
      | Inr srt_path \<Rightarrow> Inr
          [(''draft_folder'', draft_folder),
           (''srt_path'', srt_path),
           (''track_name'', dict_get args ''track_name'' (PStr ''subtitle'')),
           (''time_offset'', dict_get args ''time_offset'' (PInt 0)),
           (''font'', dict_get args ''font'' PNone),
           (''font_size'', dict_get args ''font_size'' (PFloat (float_lit fo 8))),
           (''font_color'', dict_get args ''font_color'' (PStr ''#FFFFFF'')),
           (''bold'', dict_get args ''bold'' (PBool False)),
           (''italic'', dict_get args ''italic'' (PBool False)),
           (''underline'', dict_get args ''underline'' (PBool False)),
           (''border_width'', dict_get args ''border_width'' (PFloat (float_lit fo 0))),
           (''border_color'', dict_get args ''border_color'' (PStr ''#000000'')),
           (''background_color'', dict_get args ''background_color'' (PStr ''#000000'')),
           (''background_alpha'', dict_get args ''background_alpha'' (PFloat (float_lit fo 0))),
           (''transform_x'', dict_get args ''transform_x'' (PFloat (float_lit fo 0))),
           (''transform_y'', dict_get args ''transform_y'' (PFloat (float_lit fo (- (4 / 5))))),
           (''width'', dict_get args ''width'' (PInt 1080)),
           (''height'', dict_get args ''height'' (PInt 1920))])"

definition add_subtitle :: "('f, 'w) env \<Rightarrow> 'f pyval \<Rightarrow> ('f, 'w) server \<Rightarrow> (exn + 'f pyval) \<times> ('f, 'w) server" where
  "add_subtitle e = with_draft e ''add_subtitle_impl'' (add_subtitle_kwargs (floats e))"

definition add_effect_kwargs :: "'f float_ops \<Rightarrow> 'f pydict \<Rightarrow> 'f pyval \<Rightarrow> 'f pyval \<Rightarrow> exn + 'f pydict" where
  "add_effect_kwargs fo args draft_id draft_folder =
     (case dict_item args ''effect_type'' of
        Inl x \<Rightarrow> Inl x
      | Inr effect_type \<Rightarrow>
          (case py_sub fo (dict_get args ''end'' (PFloat (float_lit fo 3))) (dict_get args ''start'' (PInt 0)) of
             Inl x \<Rightarrow> Inl x
           | Inr duration \<Rightarrow> Inr
               [(''draft_folder'', draft_folder),
                (''effect_type'', effect_type),
                (''start'', dict_get args ''start'' (PInt 0)),
                (''duration'', duration),
                (''track_name'', dict_get args ''track_name'' (PStr ''effect_01'')),
                (''params'', dict_get args ''params'' (PList [])),
                (''width'', dict_get args ''width'' (PInt 1080)),
                (''height'', dict_get args ''height'' (PInt 1920))]))"

definition add_effect :: "('f, 'w) env \<Rightarrow> 'f pyval \<Rightarrow> ('f, 'w) server \<Rightarrow> (exn + 'f pyval) \<times> ('f, 'w) server" where
  "add_effect e = with_draft e ''add_effect_impl'' (add_effect_kwargs (floats e))"

definition add_sticker_kwargs :: "'f float_ops \<Rightarrow> 'f pydict \<Rightarrow> 'f pyval \<Rightarrow> 'f pyval \<Rightarrow> exn + 'f pydict" where
  "add_sticker_kwargs fo args draft_id draft_folder =
     (case dict_item args ''sticker_url'' of
        Inl x \<Rightarrow> Inl x
      | Inr sticker_url \<Rightarrow>
          (case py_sub fo (dict_get args ''end'' (PFloat (float_lit fo 3))) (dict_get args ''start'' (PInt 0)) of
             Inl x \<Rightarrow> Inl x
           | Inr duration \<Rightarrow> Inr
               [(''draft_folder'', draft_folder),
                (''sticker_url'', sticker_url),
                (''start'', dict_get args ''start'' (PInt 0)),
                (''duration'', duration),
                (''width'', dict_get args ''width'' (PInt 1080)),
                (''height'', dict_get args ''height'' (PInt 1920)),
                (''transform_x'', dict_get args ''transform_x'' (PInt 0)),
                (''transform_y'', dict_get args ''transform_y'' (PInt 0)),
                (''scale_x'', dict_get args ''scale_x'' (PInt 1)),
                (''scale_y'', dict_get args ''scale_y'' (PInt 1)),
                (''rotation'', dict_get args ''rotation'' (PInt 0)),
                (''track_name'', dict_get args ''track_name'' (PStr ''sticker_main''))]))"

definition add_sticker :: "('f, 'w) env \<Rightarrow> 'f pyval \<Rightarrow> ('f, 'w) server \<Rightarrow> (exn + 'f pyval) \<times> ('f, 'w) server" where
  "add_sticker e = with_draft e ''add_sticker_impl'' (add_sticker_kwargs (floats e))"

definition save_draft_kwargs :: "'f pydict \<Rightarrow> 'f pyval \<Rightarrow> 'f pyval \<Rightarrow> exn + 'f pydict" where
  "save_draft_kwargs args draft_id draft_folder =
     Inr [(''draft_folder'', draft_folder), (''draft_id'', draft_id)]"

definition save_draft :: "('f, 'w) env \<Rightarrow> 'f pyval \<Rightarrow> ('f, 'w) server \<Rightarrow> (exn + 'f pyval) \<times> ('f, 'w) server" where
  "save_draft e = with_draft e ''save_draft_impl'' save_draft_kwargs"

section \<open>\<^verbatim>\<open>call_tool\<close> and the two transport handlers\<close>

definition unavailable :: "'f pyval" where
  "unavailable = PDict [(''success'', PBool False),
     (''error'', PStr ''CapCut modules not available. Please check installation.'')]"

definition unknown_tool :: "string \<Rightarrow> 'f pyval" where
  "unknown_tool name = PDict [(''success'', PBool False), (''error'', PStr (''Unknown tool: '' @ name))]"

text \<open>The \<^verbatim>\<open>except Exception as e\<close> clause of \<^verbatim>\<open>call_tool\<close>.\<close>

definition fault_envelope :: "('f, 'w) env \<Rightarrow> exn \<Rightarrow> 'f pyval" where
  "fault_envelope e x = PDict [(''success'', PBool False),
                              (''error'', PStr (exn_str x)),
                              (''traceback'', PStr (format_exc e x))]"

text \<open>The body of the \<^verbatim>\<open>try\<close> block: the chain of comparisons on the tool name.\<close>

definition dispatch :: "('f, 'w) env \<Rightarrow> string \<Rightarrow> 'f pyval \<Rightarrow> ('f, 'w) server \<Rightarrow> (exn + 'f pyval) \<times> ('f, 'w) server" where
  "dispatch e name arguments s =
     (if name = ''create_draft'' then create_draft e arguments s
      else if name = ''add_video'' then add_video e arguments s
      else if name = ''add_audio'' then add_audio e arguments s
      else if name = ''add_image'' then add_image e arguments s
      else if name = ''add_text'' then add_text e arguments s
      else if name = ''add_subtitle'' then add_subtitle e arguments s
      else if name = ''add_effect'' then add_effect e arguments s
      else if name = ''add_sticker'' then add_sticker e arguments s
      else if name = ''save_draft'' then save_draft e arguments s
      else (Inr (unknown_tool name), s))"

text \<open>
  \<^verbatim>\<open>CapCutMCPServer.call_tool\<close>. Its result is again a value or a raised exception, so
  that "it never raises" is a theorem about it and not a property of its type.
\<close>

definition call_tool :: "('f, 'w) env \<Rightarrow> string \<Rightarrow> 'f pyval \<Rightarrow> ('f, 'w) server \<Rightarrow> (exn + 'f pyval) \<times> ('f, 'w) server" where
  "call_tool e name arguments s =
     (if \<not> CAPCUT_AVAILABLE e then (Inr unavailable, s)
      else case dispatch e name arguments s of
             (Inl x, s') \<Rightarrow> (Inr (fault_envelope e x), s')
           | (Inr r, s') \<Rightarrow> (Inr r, s'))"

subsection \<open>\<^verbatim>\<open>json.dumps\<close>\<close>

text \<open>
  The serializer of the standard library, with its default separators. A string is
  escaped as \<^verbatim>\<open>json.encoder\<close> does: backslash, double quote and the control
  characters always, and every character outside the printable ASCII range as well when
  \<^verbatim>\<open>ensure_ascii\<close> is set. An opaque object is not serializable.
\<close>

definition hex_digit :: "nat \<Rightarrow> char" where
  "hex_digit n = ''0123456789abcdef'' ! n"

definition u_escape :: "nat \<Rightarrow> string" where
  "u_escape n = [CHR 0x5C, CHR ''u'', CHR ''0'', CHR ''0'', hex_digit (n div 16), hex_digit (n mod 16)]"

definition json_char :: "bool \<Rightarrow> char \<Rightarrow> string" where
  "json_char ensure_ascii c =
     (let n = (of_char c :: nat) in
      if n = 0x5C then [CHR 0x5C, CHR 0x5C]
      else if n = 0x22 then [CHR 0x5C, CHR 0x22]
      else if n = 8 then [CHR 0x5C, CHR ''b'']
      else if n = 12 then [CHR 0x5C, CHR ''f'']
      else if n = 10 then [CHR 0x5C, CHR ''n'']
      else if n = 13 then [CHR 0x5C, CHR ''r'']
      else if n = 9 then [CHR 0x5C, CHR ''t'']
      else if n < 0x20 \<or> (ensure_ascii \<and> 0x7E < n) then u_escape n
      else [c])"

definition json_string :: "bool \<Rightarrow> string \<Rightarrow> string" where
  "json_string ensure_ascii s = [CHR 0x22] @ concat (map (json_char ensure_ascii) s) @ [CHR 0x22]"

fun digits :: "nat \<Rightarrow> string" where
  "digits n = (if n < 10 then [''0123456789'' ! n] else digits (n div 10) @ [''0123456789'' ! (n mod 10)])"

declare digits.simps [simp del]

definition int_str :: "int \<Rightarrow> string" where
  "int_str i = (if i < 0 then CHR ''-'' # digits (nat (- i)) else digits (nat i))"

fun join :: "string \<Rightarrow> string list \<Rightarrow> string" where
  "join sep [] = []"
| "join sep [x] = x"
| "join sep (x # y # ys) = x @ sep @ join sep (y # ys)"

fun json_dumps :: "('f \<Rightarrow> string) \<Rightarrow> bool \<Rightarrow> 'f pyval \<Rightarrow> exn + string"
  and json_elems :: "('f \<Rightarrow> string) \<Rightarrow> bool \<Rightarrow> 'f pyval list \<Rightarrow> exn + string list"
  and json_items :: "('f \<Rightarrow> string) \<Rightarrow> bool \<Rightarrow> (string \<times> 'f pyval) list \<Rightarrow> exn + string list"
where
  "json_dumps fr a PNone = Inr ''null''"
| "json_dumps fr a (PBool b) = Inr (if b then ''true'' else ''false'')"
| "json_dumps fr a (PInt i) = Inr (int_str i)"
| "json_dumps fr a (PFloat r) = Inr (fr r)"
| "json_dumps fr a (PStr s) = Inr (json_string a s)"
| "json_dumps fr a (PList xs) =
     (case json_elems fr a xs of Inl x \<Rightarrow> Inl x | Inr ts \<Rightarrow> Inr (''['' @ join '', '' ts @ '']''))"
| "json_dumps fr a (PDict kvs) =
     (case json_items fr a kvs of Inl x \<Rightarrow> Inl x | Inr ts \<Rightarrow> Inr (''{'' @ join '', '' ts @ ''}''))"
| "json_dumps fr a (PObj c) =
     Inl (TypeError (''Object of type '' @ c @ '' is not JSON serializable''))"
| "json_elems fr a [] = Inr []"
| "json_elems fr a (v # vs) =
     (case json_dumps fr a v of
        Inl x \<Rightarrow> Inl x
      | Inr t \<Rightarrow> (case json_elems fr a vs of Inl x \<Rightarrow> Inl x | Inr ts \<Rightarrow> Inr (t # ts)))"
| "json_items fr a [] = Inr []"
| "json_items fr a (kv # kvs) =
     (case json_dumps fr a (snd kv) of
        Inl x \<Rightarrow> Inl x
      | Inr t \<Rightarrow> (case json_items fr a kvs of
                    Inl x \<Rightarrow> Inl x
                  | Inr ts \<Rightarrow> Inr ((json_string a (fst kv) @ '': '' @ t) # ts)))"

subsection \<open>The transport handlers\<close>

datatype text_content = TextContent (tc_type: string) (tc_text: string)

text \<open>
  What both handlers do with an envelope:
  \<^verbatim>\<open>return [types.TextContent(type="text", text=json.dumps(result, ensure_ascii=False))]\<close>
\<close>

definition reply :: "('f, 'w) env \<Rightarrow> (exn + 'f pyval) \<times> ('f, 'w) server \<Rightarrow> (exn + text_content list) \<times> ('f, 'w) server" where
  "reply e rs =
     (case rs of
        (Inl x, s') \<Rightarrow> (Inl x, s')
      | (Inr result, s') \<Rightarrow>
          (case json_dumps (float_repr (floats e)) False result of
             Inl x \<Rightarrow> (Inl x, s')
           | Inr t \<Rightarrow> (Inr [TextContent ''text'' t], s')))"

text \<open>\<^verbatim>\<open>call_tool\<close> of \<^verbatim>\<open>mcp_server_sse.py\<close>.\<close>

definition sse_call_tool :: "('f, 'w) env \<Rightarrow> string \<Rightarrow> 'f pyval \<Rightarrow> ('f, 'w) server
    \<Rightarrow> (exn + text_content list) \<times> ('f, 'w) server" where
  "sse_call_tool e name arguments s = reply e (call_tool e name arguments s)"

text \<open>\<^verbatim>\<open>arguments or {}\<close>\<close>

definition or_empty :: "'f float_ops \<Rightarrow> 'f pyval \<Rightarrow> 'f pyval" where
  "or_empty fo arguments = (if truthy fo arguments then arguments else PDict [])"

text \<open>\<^verbatim>\<open>handle_call_tool\<close> of \<^verbatim>\<open>mcp_server.py\<close>, the stdio handler.\<close>

definition handle_call_tool :: "('f, 'w) env \<Rightarrow> string \<Rightarrow> 'f pyval \<Rightarrow> ('f, 'w) server
    \<Rightarrow> (exn + text_content list) \<times> ('f, 'w) server" where
  "handle_call_tool e name arguments s =
     (if name = ''create_draft'' then reply e (call_tool e ''create_draft'' (or_empty (floats e) arguments) s)
      else if name = ''add_video'' then reply e (call_tool e ''add_video'' (or_empty (floats e) arguments) s)
      else if name = ''add_audio'' then reply e (call_tool e ''add_audio'' (or_empty (floats e) arguments) s)
      else if name = ''add_image'' then reply e (call_tool e ''add_image'' (or_empty (floats e) arguments) s)
      else if name = ''add_text'' then reply e (call_tool e ''add_text'' (or_empty (floats e) arguments) s)
      else if name = ''add_subtitle'' then reply e (call_tool e ''add_subtitle'' (or_empty (floats e) arguments) s)
      else if name = ''add_effect'' then reply e (call_tool e ''add_effect'' (or_empty (floats e) arguments) s)
      else if name = ''add_sticker'' then reply e (call_tool e ''add_sticker'' (or_empty (floats e) arguments) s)
      else if name = ''save_draft'' then reply e (call_tool e ''save_draft'' (or_empty (floats e) arguments) s)
      else (case json_dumps (float_repr (floats e)) True (PDict [(''error'', PStr (''Unknown tool: '' @ name))]) of
              Inl x \<Rightarrow> (Inl x, s)
            | Inr t \<Rightarrow> (Inr [TextContent ''text'' t], s)))"

subsection \<open>Names used in the statements\<close>

text \<open>The tools that work on an existing draft: every name \<open>dispatch\<close> knows but
  \<^verbatim>\<open>create_draft\<close>; and the three of them that compute a duration.\<close>

definition draft_tools :: "string list" where
  "draft_tools = [''add_video'', ''add_audio'', ''add_image'', ''add_text'', ''add_subtitle'',
                  ''add_effect'', ''add_sticker'', ''save_draft'']"

definition duration_tools :: "string list" where
  "duration_tools = [''add_image'', ''add_effect'', ''add_sticker'']"

text \<open>Python's hashable values, among those of the model: all but lists and dicts.\<close>

fun hashable :: "'f pyval \<Rightarrow> bool" where
  "hashable (PList _) = False"
| "hashable (PDict _) = False"
| "hashable _ = True"

text \<open>\<open>registered ds args k folder\<close>: the arguments carry the draft id \<open>k\<close>, a key of the
  registry whose session holds \<open>folder\<close>.\<close>

definition registered :: "(string \<rightharpoonup> 'f pydict) \<Rightarrow> 'f pydict \<Rightarrow> string \<Rightarrow> 'f pyval \<Rightarrow> bool" where
  "registered ds args k folder =
     (k \<noteq> [] \<and> map_of args ''draft_id'' = Some (PStr k) \<and>
      (case ds k of None \<Rightarrow> False | Some session \<Rightarrow> map_of session ''folder'' = Some folder))"

text \<open>The first of the fields a catalog entry marks required, in the order of the
  entry, that the arguments lack.\<close>

definition first_missing :: "string list \<Rightarrow> 'f pydict \<Rightarrow> string option" where
  "first_missing required args = find (\<lambda>f. map_of args f = None) required"

text \<open>An envelope that reports success.\<close>

definition succeeded :: "exn + 'f pyval \<Rightarrow> bool" where
  "succeeded r = (case r of Inr (PDict kvs) \<Rightarrow> map_of kvs ''success'' = Some (PBool True) | _ \<Rightarrow> False)"

section \<open>A test double\<close>

text \<open>
  A concrete environment for running the handlers: the world is a counter of the ids
  drawn so far, and a Composer function returns a string naming it, except that a call
  with the string \<^verbatim>\<open>boom\<close> among its arguments raises.
\<close>

definition test_composer :: "'f comp_call \<Rightarrow> nat \<Rightarrow> (exn + 'f pyval) \<times> nat" where
  "test_composer c w =
     (if PStr ''boom'' \<in> set (pos c) \<union> snd ` set (kw c)
      then (Inl (Exn ''RuntimeError'' ''network fetch failed''), w)
      else (Inr (PStr (fn c)), w))"

text \<open>The floats of the test double are rational numbers with exact arithmetic; it
  stands in for the interpreter in the instances below, none of which computes with a
  float.\<close>

definition test_floats :: "rat float_ops" where
  "test_floats = \<lparr>float_lit = (\<lambda>r. r),
                  float_sub = (\<lambda>x y. x - y),
                  float_of_int = (\<lambda>i. Inr (of_int i)),
                  float_nonzero = (\<lambda>x. x \<noteq> 0),
                  float_repr = (\<lambda>x. ''<float>'')\<rparr>"

definition test_env :: "(rat, nat) env" where
  "test_env = \<lparr>CAPCUT_AVAILABLE = True,
               uuid4 = (\<lambda>w. (''draft-'' @ digits w, Suc w)),
               composer = test_composer,
               TextStyleRange = (\<lambda>kvs. Inr (PObj ''TextStyleRange'')),
               format_exc = (\<lambda>x. ''Traceback (most recent call last): '' @ exn_class x),
               floats = test_floats\<rparr>"

definition empty_server :: "(rat, nat) server" where
  "empty_server = \<lparr>drafts = Map.empty, world = 0, log = []\<rparr>"

text \<open>A server holding one draft, created with width 720 and height 1280.\<close>

definition one_draft :: "(rat, nat) server" where
  "one_draft = snd (call_tool test_env ''create_draft''
                      (PDict [(''width'', PInt 720), (''height'', PInt 1280)]) empty_server)"

section \<open>What a handler can do to the server\<close>

lemma with_draft_drafts: "drafts (snd (with_draft e impl build a s)) = drafts s"
  by (simp add: with_draft_def invoke_def Let_def split: sum.splits option.splits prod.splits)

lemma with_draft_invalid:
  assumes "map_of args ''draft_id'' = None \<or>
           (\<exists>v. map_of args ''draft_id'' = Some v \<and>
                (\<not> truthy (floats e) v \<or> (hashable v \<and> (\<forall>k. v = PStr k \<longrightarrow> k \<notin> dom ds))))"
    and "drafts s = ds"
  shows "with_draft e impl build (PDict args) s = (Inr invalid_draft_id, s)"
proof -
  let ?v = "dict_get args ''draft_id'' PNone"
  show ?thesis
  proof (cases "truthy (floats e) ?v")
    case False
    then show ?thesis by (simp add: with_draft_def as_dict_def)
  next
    case True
    with assms obtain v where v: "map_of args ''draft_id'' = Some v" "truthy (floats e) v"
       "hashable v" "\<forall>k. v = PStr k \<longrightarrow> k \<notin> dom ds"
      by (auto simp: dict_get_def)
    then have "registry_find (drafts s) ?v = Inr None"
      using assms(2) by (cases v) (auto simp: registry_find_def dict_get_def)
    with True show ?thesis by (simp add: with_draft_def as_dict_def)
  qed
qed

lemma dispatch_simps:
  "dispatch e ''create_draft'' = create_draft e"
  "dispatch e ''add_video'' = with_draft e ''add_video_track'' (add_video_kwargs (floats e))"
  "dispatch e ''add_audio'' = with_draft e ''add_audio_track'' (add_audio_kwargs (floats e))"
  "dispatch e ''add_image'' = with_draft e ''add_image_impl'' (add_image_kwargs (floats e))"
  "dispatch e ''add_text'' = with_draft e ''add_text_impl'' (add_text_kwargs e)"
  "dispatch e ''add_subtitle'' = with_draft e ''add_subtitle_impl'' (add_subtitle_kwargs (floats e))"
  "dispatch e ''add_effect'' = with_draft e ''add_effect_impl'' (add_effect_kwargs (floats e))"
  "dispatch e ''add_sticker'' = with_draft e ''add_sticker_impl'' (add_sticker_kwargs (floats e))"
  "dispatch e ''save_draft'' = with_draft e ''save_draft_impl'' save_draft_kwargs"
  by (simp_all add: dispatch_def fun_eq_iff add_video_def add_audio_def add_image_def add_text_def
      add_subtitle_def add_effect_def add_sticker_def save_draft_def)

lemma draft_tools_iff:
  "name \<in> set draft_tools \<longleftrightarrow> name = ''add_video'' \<or> name = ''add_audio'' \<or> name = ''add_image''
    \<or> name = ''add_text'' \<or> name = ''add_subtitle'' \<or> name = ''add_effect''
    \<or> name = ''add_sticker'' \<or> name = ''save_draft''"
  unfolding draft_tools_def by (simp only: set_simps insert_iff empty_iff HOL.simp_thms)

lemma dispatch_draft_tools:
  assumes "name \<in> set draft_tools"
  shows "\<exists>impl build. dispatch e name = with_draft e impl build"
  using assms unfolding draft_tools_iff
  apply (elim disjE)
  apply (simp_all only: dispatch_simps)
  apply (intro exI, rule refl)+
  done

lemma dispatch_unknown:
  "name \<noteq> ''create_draft'' \<Longrightarrow> name \<notin> set draft_tools \<Longrightarrow>
   dispatch e name a s = (Inr (unknown_tool name), s)"
  by (simp add: dispatch_def draft_tools_def)

lemma with_draft_registered:
  assumes "registered (drafts s) args k folder"
  shows "with_draft e impl build (PDict args) s =
     (case build args (PStr k) folder of
        Inl x \<Rightarrow> (Inl x, s)
      | Inr kwargs \<Rightarrow>
          (let c = \<lparr>fn = impl, pos = [], kw = kwargs\<rparr>; rw = composer e c (world s);
               s' = s\<lparr>world := snd rw, log := log s @ [(c, fst rw)]\<rparr>
           in case fst rw of Inl x \<Rightarrow> (Inl x, s') | Inr result \<Rightarrow> (Inr (success result), s')))"
  using assms
  by (auto simp: registered_def with_draft_def as_dict_def dict_get_def registry_find_def
      dict_item_def invoke_def Let_def split: option.splits sum.splits)


lemma with_draft_outcome_aux:
  "(snd (with_draft e impl build a s) = s \<and>
      (fst (with_draft e impl build a s) = Inr invalid_draft_id \<or>
       (\<exists>x. fst (with_draft e impl build a s) = Inl x))) \<or>
   (\<exists>c x. log (snd (with_draft e impl build a s)) = log s @ [(c, Inl x)] \<and>
       drafts (snd (with_draft e impl build a s)) = drafts s \<and>
       fst (with_draft e impl build a s) = Inl x) \<or>
   (\<exists>c v. log (snd (with_draft e impl build a s)) = log s @ [(c, Inr v)] \<and>
       drafts (snd (with_draft e impl build a s)) = drafts s \<and>
       fst (with_draft e impl build a s) = Inr (success v))"
  by (simp add: with_draft_def invoke_def Let_def split: sum.split option.split)

lemma with_draft_outcome:
  "with_draft e impl build a s = (r, s') \<Longrightarrow>
     (s' = s \<and> (r = Inr invalid_draft_id \<or> (\<exists>x. r = Inl x))) \<or>
     (\<exists>c x. log s' = log s @ [(c, Inl x)] \<and> drafts s' = drafts s \<and> r = Inl x) \<or>
     (\<exists>c v. log s' = log s @ [(c, Inr v)] \<and> drafts s' = drafts s \<and> r = Inr (success v))"
  using with_draft_outcome_aux[of e impl build a s] by simp

lemma create_draft_outcome_aux:
  "(snd (create_draft e a s) = s \<and> (\<exists>x. fst (create_draft e a s) = Inl x)) \<or>
   (\<exists>c x. log (snd (create_draft e a s)) = log s @ [(c, Inl x)] \<and>
       drafts (snd (create_draft e a s)) = drafts s \<and> fst (create_draft e a s) = Inl x) \<or>
   (\<exists>c v rest session. log (snd (create_draft e a s)) = log s @ [(c, Inr v)] \<and>
       fst (create_draft e a s) = Inr (PDict ((''success'', PBool True) # rest)) \<and>
       drafts (snd (create_draft e a s)) = (drafts s)(fst (uuid4 e (world s)) \<mapsto> session))"
  by (auto simp: create_draft_def invoke_def Let_def split: sum.split)

lemma create_draft_outcome:
  "create_draft e a s = (r, s') \<Longrightarrow>
     (s' = s \<and> (\<exists>x. r = Inl x)) \<or>
     (\<exists>c x. log s' = log s @ [(c, Inl x)] \<and> drafts s' = drafts s \<and> r = Inl x) \<or>
     (\<exists>c v rest session. log s' = log s @ [(c, Inr v)] \<and>
         r = Inr (PDict ((''success'', PBool True) # rest)) \<and>
         drafts s' = (drafts s)(fst (uuid4 e (world s)) \<mapsto> session))"
  using create_draft_outcome_aux[of e a s] by simp

lemma draft_tools_not_create: "''create_draft'' \<notin> set draft_tools"
  by (simp add: draft_tools_def)

lemma dispatch_outcome:
  assumes "dispatch e name a s = (r, s')"
  shows "(log s' = log s \<and> drafts s' = drafts s \<and>
           ((\<exists>x. r = Inl x) \<or> (\<exists>rest. r = Inr (PDict ((''success'', PBool False) # rest))))) \<or>
         (\<exists>c x. log s' = log s @ [(c, Inl x)] \<and> drafts s' = drafts s \<and> r = Inl x) \<or>
         (\<exists>c v rest. log s' = log s @ [(c, Inr v)] \<and>
             r = Inr (PDict ((''success'', PBool True) # rest)) \<and>
             (if name = ''create_draft''
              then \<exists>session. drafts s' = (drafts s)(fst (uuid4 e (world s)) \<mapsto> session)
              else drafts s' = drafts s))"
proof -
  consider "name = ''create_draft''" | "name \<in> set draft_tools"
    | "name \<noteq> ''create_draft''" "name \<notin> set draft_tools" by blast
  then show ?thesis
  proof cases
    case 1
    with assms have "create_draft e a s = (r, s')" by (simp only: dispatch_simps)
    from create_draft_outcome[OF this] show ?thesis unfolding 1
      by (elim disjE exE conjE) auto
  next
    case 2
    then have ne: "name \<noteq> ''create_draft''" using draft_tools_not_create by blast
    from 2 obtain impl build where "dispatch e name = with_draft e impl build"
      using dispatch_draft_tools by blast
    with assms have "with_draft e impl build a s = (r, s')" by simp
    from with_draft_outcome[OF this] ne show ?thesis unfolding invalid_draft_id_def success_def
      by (elim disjE exE conjE) auto
  next
    case 3
    with assms show ?thesis by (auto simp: dispatch_unknown unknown_tool_def)
  qed
qed

lemma call_tool_outcome:
  assumes "call_tool e name a s = (r, s')"
  shows "(log s' = log s \<and> drafts s' = drafts s \<and>
           (\<exists>rest. r = Inr (PDict ((''success'', PBool False) # rest)))) \<or>
         (\<exists>c x. log s' = log s @ [(c, Inl x)] \<and> drafts s' = drafts s \<and>
             r = Inr (fault_envelope e x)) \<or>
         (\<exists>c v rest. log s' = log s @ [(c, Inr v)] \<and>
             r = Inr (PDict ((''success'', PBool True) # rest)) \<and>
             (if name = ''create_draft''
              then \<exists>session. drafts s' = (drafts s)(fst (uuid4 e (world s)) \<mapsto> session)
              else drafts s' = drafts s))"
proof (cases "CAPCUT_AVAILABLE e")
  case False
  with assms show ?thesis by (auto simp: call_tool_def unavailable_def)
next
  case True
  obtain r0 s0 where d: "dispatch e name a s = (r0, s0)" by (cases "dispatch e name a s")
  with True assms have rs: "s' = s0"
    "r = (case r0 of Inl x \<Rightarrow> Inr (fault_envelope e x) | Inr v \<Rightarrow> Inr v)"
    by (auto simp: call_tool_def split: sum.splits)
  from dispatch_outcome[OF d] show ?thesis unfolding rs
    by (elim disjE exE conjE) (auto simp: fault_envelope_def)
qed

lemma succeeded_simps:
  "succeeded (Inr (PDict ((''success'', PBool b) # rest))) = b"
  "\<not> succeeded (Inl x)"
  "\<not> succeeded (Inr (fault_envelope e x))"
  by (simp_all add: succeeded_def fault_envelope_def)

subsection \<open>The arguments a handler passes on\<close>

lemma with_draft_log:
  assumes "log (snd (with_draft e impl build (PDict args) s)) = log s @ [(c, out)]"
  shows "\<exists>did folder kwargs. build args did folder = Inr kwargs \<and>
           c = \<lparr>fn = impl, pos = [], kw = kwargs\<rparr>"
  using assms
  by (auto simp: with_draft_def as_dict_def invoke_def Let_def
      split: sum.splits option.splits if_splits)

lemma width_height_kwargs:
  "add_video_kwargs fo args did folder = Inr kwargs \<Longrightarrow>
     map_of kwargs ''width'' = Some (dict_get args ''width'' (PInt 1080)) \<and>
     map_of kwargs ''height'' = Some (dict_get args ''height'' (PInt 1920))"
  "add_audio_kwargs fo args did folder = Inr kwargs \<Longrightarrow>
     map_of kwargs ''width'' = Some (dict_get args ''width'' (PInt 1080)) \<and>
     map_of kwargs ''height'' = Some (dict_get args ''height'' (PInt 1920))"
  "add_image_kwargs fo args did folder = Inr kwargs \<Longrightarrow>
     map_of kwargs ''width'' = Some (dict_get args ''width'' (PInt 1080)) \<and>
     map_of kwargs ''height'' = Some (dict_get args ''height'' (PInt 1920))"
  "add_text_kwargs e args did folder = Inr kwargs \<Longrightarrow>
     map_of kwargs ''width'' = Some (dict_get args ''width'' (PInt 1080)) \<and>
     map_of kwargs ''height'' = Some (dict_get args ''height'' (PInt 1920))"
  "add_subtitle_kwargs fo args did folder = Inr kwargs \<Longrightarrow>
     map_of kwargs ''width'' = Some (dict_get args ''width'' (PInt 1080)) \<and>
     map_of kwargs ''height'' = Some (dict_get args ''height'' (PInt 1920))"
  "add_effect_kwargs fo args did folder = Inr kwargs \<Longrightarrow>
     map_of kwargs ''width'' = Some (dict_get args ''width'' (PInt 1080)) \<and>
     map_of kwargs ''height'' = Some (dict_get args ''height'' (PInt 1920))"
  "add_sticker_kwargs fo args did folder = Inr kwargs \<Longrightarrow>
     map_of kwargs ''width'' = Some (dict_get args ''width'' (PInt 1080)) \<and>
     map_of kwargs ''height'' = Some (dict_get args ''height'' (PInt 1920))"
  by (auto simp: add_video_kwargs_def add_audio_kwargs_def add_image_kwargs_def
      add_text_kwargs_def add_subtitle_kwargs_def add_effect_kwargs_def add_sticker_kwargs_def
      split: sum.splits)

lemma duration_kwargs:
  "add_image_kwargs fo args did folder = Inr kwargs \<Longrightarrow>
     \<exists>d. map_of kwargs ''duration'' = Some d \<and>
         py_sub fo (dict_get args ''end'' (PFloat (float_lit fo 3))) (dict_get args ''start'' (PInt 0)) = Inr d"
  "add_effect_kwargs fo args did folder = Inr kwargs \<Longrightarrow>
     \<exists>d. map_of kwargs ''duration'' = Some d \<and>
         py_sub fo (dict_get args ''end'' (PFloat (float_lit fo 3))) (dict_get args ''start'' (PInt 0)) = Inr d"
  "add_sticker_kwargs fo args did folder = Inr kwargs \<Longrightarrow>
     \<exists>d. map_of kwargs ''duration'' = Some d \<and>
         py_sub fo (dict_get args ''end'' (PFloat (float_lit fo 3))) (dict_get args ''start'' (PInt 0)) = Inr d"
  by (auto simp: add_image_kwargs_def add_effect_kwargs_def add_sticker_kwargs_def
      split: sum.splits)

lemma py_sub_ints:
  "int_val a = Some i \<Longrightarrow> int_val b = Some j \<Longrightarrow> py_sub fo a b = Inr (PInt (i - j))"
  by (simp add: py_sub_def)

lemma py_sub_floats:
  "py_sub fo (PFloat x) (PFloat y) = Inr (PFloat (float_sub fo x y))"
  by (simp add: py_sub_def to_float_def)

lemma py_sub_float_int:
  "int_val b = Some j \<Longrightarrow> float_of_int fo j = Inr u \<Longrightarrow>
     py_sub fo (PFloat x) b = Inr (PFloat (float_sub fo x u))"
  by (cases b) (auto simp: py_sub_def to_float_def)

lemma py_sub_int_float:
  "int_val a = Some i \<Longrightarrow> float_of_int fo i = Inr u \<Longrightarrow>
     py_sub fo a (PFloat y) = Inr (PFloat (float_sub fo u y))"
  by (cases a) (auto simp: py_sub_def to_float_def)

lemma call_tool_snd:
  "snd (call_tool e name a s) = (if CAPCUT_AVAILABLE e then snd (dispatch e name a s) else s)"
  by (simp add: call_tool_def split: prod.splits sum.splits)

lemma dict_get_case: "dict_get d k dflt = (case map_of d k of None \<Rightarrow> dflt | Some v \<Rightarrow> v)"
  by (simp add: dict_get_def)

lemma duration_tools_iff:
  "name \<in> set duration_tools \<longleftrightarrow> name = ''add_image'' \<or> name = ''add_effect'' \<or> name = ''add_sticker''"
  unfolding duration_tools_def by (simp only: set_simps insert_iff empty_iff HOL.simp_thms)

lemma create_draft_session:
  "drafts (snd (create_draft e a s)) k = Some session \<Longrightarrow>
     drafts s k = Some session \<or> map fst session = [''folder'', ''width'', ''height'']"
  by (auto simp: create_draft_def invoke_def Let_def split: sum.splits if_splits)

subsection \<open>A required field that is missing\<close>

lemma TOOLS_iff:
  "(name, required) \<in> set TOOLS \<longleftrightarrow>
     name = ''create_draft'' \<and> required = [] \<or>
     name = ''add_video'' \<and> required = [''video_url''] \<or>
     name = ''add_audio'' \<and> required = [''audio_url''] \<or>
     name = ''add_image'' \<and> required = [''image_url''] \<or>
     name = ''add_text'' \<and> required = [''text'', ''start'', ''end''] \<or>
     name = ''add_subtitle'' \<and> required = [''srt_path''] \<or>
     name = ''add_effect'' \<and> required = [''effect_type''] \<or>
     name = ''add_sticker'' \<and> required = [''sticker_url''] \<or>
     name = ''save_draft'' \<and> required = [''draft_id'']"
  unfolding TOOLS_def by (simp only: set_simps insert_iff empty_iff HOL.simp_thms prod.inject)

lemma missing_required:
  "map_of args ''video_url'' = None \<Longrightarrow> add_video_kwargs fo args did folder = Inl (KeyError ''video_url'')"
  "map_of args ''audio_url'' = None \<Longrightarrow> add_audio_kwargs fo args did folder = Inl (KeyError ''audio_url'')"
  "map_of args ''image_url'' = None \<Longrightarrow> add_image_kwargs fo args did folder = Inl (KeyError ''image_url'')"
  "map_of args ''srt_path'' = None \<Longrightarrow> add_subtitle_kwargs fo args did folder = Inl (KeyError ''srt_path'')"
  "map_of args ''effect_type'' = None \<Longrightarrow> add_effect_kwargs fo args did folder = Inl (KeyError ''effect_type'')"
  "map_of args ''sticker_url'' = None \<Longrightarrow> add_sticker_kwargs fo args did folder = Inl (KeyError ''sticker_url'')"
  by (simp_all add: add_video_kwargs_def add_audio_kwargs_def add_image_kwargs_def
      add_subtitle_kwargs_def add_effect_kwargs_def add_sticker_kwargs_def dict_item_def)

lemma missing_required_text:
  assumes "text_styles_of e args = Inr ts"
    and "first_missing [''text'', ''start'', ''end''] args = Some g"
  shows "add_text_kwargs e args did folder = Inl (KeyError g)"
  using assms
  by (auto simp: first_missing_def add_text_kwargs_def dict_item_def split: if_splits option.splits)

lemma failed_text_styles:
  "text_styles_of e args = Inl x \<Longrightarrow> add_text_kwargs e args did folder = Inl x"
  by (simp add: add_text_kwargs_def)

lemma first_missing_single:
  "first_missing [f] args = Some g \<Longrightarrow> g = f \<and> map_of args f = None"
  by (simp add: first_missing_def split: if_splits)

lemma raised_in_build:
  assumes "CAPCUT_AVAILABLE e" and "registered (drafts s) args k folder"
    and "build args (PStr k) folder = Inl x"
  shows "with_draft e impl build (PDict args) s = (Inl x, s)"
  using assms by (simp add: with_draft_registered)

lemma or_empty_dict: "or_empty fo (PDict args) = PDict args"
  by (simp add: or_empty_def)

subsection \<open>The log is not read\<close>






lemma call_tool_raised:
  assumes "CAPCUT_AVAILABLE e" and "fst (dispatch e name a s) = Inl x"
  shows "call_tool e name a s = (Inr (PDict [(''success'', PBool False),
            (''error'', PStr (exn_str x)), (''traceback'', PStr (format_exc e x))]),
          snd (dispatch e name a s))"
  using assms by (cases "dispatch e name a s") (simp add: call_tool_def fault_envelope_def)

section \<open>Running the test double\<close>

lemma digits_small: "n < 10 \<Longrightarrow> digits n = [''0123456789'' ! n]"
  by (simp add: digits.simps)

lemma one_draft_eq:
  "one_draft = \<lparr>drafts = [''draft-0'' \<mapsto> [(''folder'', PStr ''get_or_create_draft''),
                                        (''width'', PInt 720), (''height'', PInt 1280)]],
                world = 1,
                log = [(\<lparr>fn = ''get_or_create_draft'',
                         pos = [PStr ''draft-0'', PInt 720, PInt 1280], kw = []\<rparr>,
                        Inr (PStr ''get_or_create_draft''))]\<rparr>"
  by (simp add: one_draft_def call_tool_def dispatch_simps create_draft_def as_dict_def
      dict_get_def invoke_def Let_def test_env_def test_composer_def empty_server_def digits_small)

lemma test_env_simps:
  "CAPCUT_AVAILABLE test_env" "composer test_env = test_composer"
  "format_exc test_env = (\<lambda>x. ''Traceback (most recent call last): '' @ exn_class x)"
  "uuid4 test_env = (\<lambda>w. (''draft-'' @ digits w, Suc w))"
  "TextStyleRange test_env = (\<lambda>kvs. Inr (PObj ''TextStyleRange''))"
  "floats test_env = test_floats"
  "float_lit test_floats = (\<lambda>r. r)"
  "float_sub test_floats = (\<lambda>x y. x - y)"
  "float_of_int test_floats = (\<lambda>i. Inr (of_int i))"
  "float_nonzero test_floats = (\<lambda>x. x \<noteq> 0)"
  "float_repr test_floats = (\<lambda>x. ''<float>'')"
  by (simp_all add: test_env_def test_floats_def)

lemmas run = call_tool_def test_env_simps dispatch_simps with_draft_def as_dict_def dict_get_def
  dict_item_def registry_find_def invoke_def Let_def one_draft_eq test_composer_def

section \<open>The claims\<close>



text \<open>
  C1, as stated: every call of \<^verbatim>\<open>call_tool\<close> with a tool name other than
  \<^verbatim>\<open>create_draft\<close> whose \<^verbatim>\<open>draft_id\<close> is absent, falsy or not a key of the registry
  returns exactly \<^verbatim>\<open>{"success": false, "error": "Invalid draft_id"}\<close>. Two calls show
  otherwise. The name \<^verbatim>\<open>foo\<close> is not \<^verbatim>\<open>create_draft\<close> and comes without a
  \<^verbatim>\<open>draft_id\<close>: the answer is the unknown-tool envelope. And \<^verbatim>\<open>add_video\<close> with the
  \<^verbatim>\<open>draft_id\<close> \<^verbatim>\<open>[1]\<close>, which is no key of the registry: the membership test raises
  on the unhashable list and the answer is the envelope of the \<^verbatim>\<open>except\<close> clause.
\<close>

theorem C1_counterexample:
  "call_tool test_env ''foo'' (PDict []) one_draft
     = (Inr (PDict [(''success'', PBool False), (''error'', PStr ''Unknown tool: foo'')]), one_draft)
   \<and> call_tool test_env ''add_video'' (PDict [(''draft_id'', PList [PInt 1])]) one_draft
     = (Inr (PDict [(''success'', PBool False),
                    (''error'', PStr (''unhashable type: '' @ quoted ''list'')),
                    (''traceback'', PStr ''Traceback (most recent call last): TypeError'')]),
        one_draft)
   \<and> fst (call_tool test_env ''foo'' (PDict []) one_draft) \<noteq> Inr invalid_draft_id
   \<and> fst (call_tool test_env ''add_video'' (PDict [(''draft_id'', PList [PInt 1])]) one_draft)
       \<noteq> Inr invalid_draft_id"
  by (simp add: run dispatch_def unknown_tool_def fault_envelope_def TypeError_def
      invalid_draft_id_def)

text \<open>
  C1, amended: for each of the eight tools that work on an existing draft (the seven
  \<^verbatim>\<open>add_*\<close> tools and \<^verbatim>\<open>save_draft\<close>), with the CapCut modules available and a dict
  of arguments, if \<^verbatim>\<open>draft_id\<close> is absent, falsy, or a hashable value that is not a key
  of the registry, the call returns exactly
  \<^verbatim>\<open>{"success": false, "error": "Invalid draft_id"}\<close> and the server is as before: no
  Composer call is logged and the registry is unchanged.
\<close>

theorem C1_invalid_draft_id:
  assumes "CAPCUT_AVAILABLE e" and "name \<in> set draft_tools"
    and "map_of args ''draft_id'' = None \<or>
         (\<exists>v. map_of args ''draft_id'' = Some v \<and>
              (\<not> truthy (floats e) v \<or> (hashable v \<and> (\<forall>k. v = PStr k \<longrightarrow> k \<notin> dom (drafts s)))))"
  shows "call_tool e name (PDict args) s = (Inr invalid_draft_id, s)"
proof -
  from assms(2) obtain impl build where "dispatch e name = with_draft e impl build"
    using dispatch_draft_tools by blast
  then have "dispatch e name (PDict args) s = (Inr invalid_draft_id, s)"
    using with_draft_invalid[OF assms(3) refl] by simp
  with assms(1) show ?thesis by (simp add: call_tool_def)
qed

text \<open>An instance: \<^verbatim>\<open>add_video\<close> on a draft id that was never created.\<close>

theorem C1_witness:
  "CAPCUT_AVAILABLE test_env \<and> ''add_video'' \<in> set draft_tools \<and>
   drafts one_draft ''missing'' = None \<and>
   call_tool test_env ''add_video''
      (PDict [(''draft_id'', PStr ''missing''), (''video_url'', PStr ''x.mp4'')]) one_draft
     = (Inr (PDict [(''success'', PBool False), (''error'', PStr ''Invalid draft_id'')]), one_draft)"
proof -
  have 1: "CAPCUT_AVAILABLE test_env" by (simp add: test_env_simps)
  have 2: "''add_video'' \<in> set draft_tools" by (simp add: draft_tools_def)
  have 3: "drafts one_draft ''missing'' = None" by (simp add: one_draft_eq)
  have 4: "map_of [(''draft_id'', PStr ''missing''), (''video_url'', PStr ''x.mp4'')] ''draft_id'' = None \<or>
         (\<exists>v. map_of [(''draft_id'', PStr ''missing''), (''video_url'', PStr ''x.mp4'')] ''draft_id'' = Some v \<and>
              (\<not> truthy (floats test_env) v \<or> (hashable v \<and> (\<forall>k. v = PStr k \<longrightarrow> k \<notin> dom (drafts one_draft)))))"
    using 3 by (simp add: domIff)
  from C1_invalid_draft_id[OF 1 2 4] 1 2 3 show ?thesis by (simp add: invalid_draft_id_def)
qed



text \<open>
  C10. The registry changes only through a successful \<^verbatim>\<open>create_draft\<close>. For every
  tool name and every arguments value, with a fresh id from \<^verbatim>\<open>uuid4\<close>: no entry that
  was in the registry is removed or overwritten; a \<^verbatim>\<open>create_draft\<close> that reports
  success adds exactly the new id to the keys; every other call, whether it succeeds or
  fails, leaves the registry as it was.
\<close>

theorem C10_registry_frame:
  assumes "fst (uuid4 e (world s)) \<notin> dom (drafts s)"
  shows "(\<forall>k \<in> dom (drafts s). drafts (snd (call_tool e name a s)) k = drafts s k) \<and>
         (name = ''create_draft'' \<and> succeeded (fst (call_tool e name a s)) \<longrightarrow>
            dom (drafts (snd (call_tool e name a s))) = insert (fst (uuid4 e (world s))) (dom (drafts s))) \<and>
         (\<not> (name = ''create_draft'' \<and> succeeded (fst (call_tool e name a s))) \<longrightarrow>
            drafts (snd (call_tool e name a s)) = drafts s)"
proof -
  obtain r s' where rs: "call_tool e name a s = (r, s')" by (cases "call_tool e name a s")
  from call_tool_outcome[OF rs] assms show ?thesis unfolding rs fst_conv snd_conv
    by (elim disjE exE conjE) (auto simp: succeeded_simps split: if_splits)
qed

text \<open>
  Instances on a server that holds \<^verbatim>\<open>draft-0\<close>: a \<^verbatim>\<open>create_draft\<close> adds
  \<^verbatim>\<open>draft-1\<close> and keeps the entry of \<^verbatim>\<open>draft-0\<close>; a successful \<^verbatim>\<open>add_video\<close>
  leaves the registry alone.
\<close>

theorem C10_witness:
  "fst (uuid4 test_env (world one_draft)) \<notin> dom (drafts one_draft) \<and>
   dom (drafts (snd (call_tool test_env ''create_draft'' (PDict []) one_draft)))
     = {''draft-0'', ''draft-1''} \<and>
   drafts (snd (call_tool test_env ''create_draft'' (PDict []) one_draft)) ''draft-0''
     = drafts one_draft ''draft-0'' \<and>
   drafts (snd (call_tool test_env ''add_video''
       (PDict [(''draft_id'', PStr ''draft-0''), (''video_url'', PStr ''x.mp4'')]) one_draft))
     = drafts one_draft"
proof -
  have 1: "fst (uuid4 test_env (world one_draft)) \<notin> dom (drafts one_draft)"
    by (simp add: test_env_simps one_draft_eq digits_small)
  have 2: "succeeded (fst (call_tool test_env ''create_draft'' (PDict []) one_draft))"
    by (simp add: run create_draft_def succeeded_def)
  have 3: "''draft-0'' \<in> dom (drafts one_draft)" "dom (drafts one_draft) = {''draft-0''}"
    "fst (uuid4 test_env (world one_draft)) = ''draft-1''"
    by (simp_all add: one_draft_eq test_env_simps digits_small)
  from C10_registry_frame[OF 1, of "''create_draft''" "PDict []"]
       C10_registry_frame[OF 1, of "''add_video''"
          "PDict [(''draft_id'', PStr ''draft-0''), (''video_url'', PStr ''x.mp4'')]"] 1 2 3
  show ?thesis by auto
qed

text \<open>
  C4. For \<^verbatim>\<open>add_image\<close>, \<^verbatim>\<open>add_effect\<close> and \<^verbatim>\<open>add_sticker\<close>, the
  \<^verbatim>\<open>duration\<close> passed to the Composer is the value of the Python expression
  \<^verbatim>\<open>end - start\<close>, where \<^verbatim>\<open>end\<close> is the argument or the float \<^verbatim>\<open>3.0\<close> and
  \<^verbatim>\<open>start\<close> the argument or the integer \<^verbatim>\<open>0\<close>.
  \<^item> Whenever the call reaches the Composer, it calls the function of that tool
    (\<^verbatim>\<open>add_image_impl\<close>, \<^verbatim>\<open>add_effect_impl\<close>, \<^verbatim>\<open>add_sticker_impl\<close>) and the
    keyword \<^verbatim>\<open>duration\<close> is the value \<open>d\<close> that \<^verbatim>\<open>end - start\<close> evaluates to.
  \<^item> On a registered draft, with the modules available and the required field present,
    whenever \<^verbatim>\<open>end - start\<close> evaluates to a value \<open>d\<close> the Composer is called with the
    duration \<open>d\<close>: nothing looks at the sign of \<open>d\<close>, a zero or negative duration goes
    through. (The subtraction itself raises on an operand that is no number, and on an
    integer too large for a double when the other operand is a float; then the call ends
    in the catch-all before the Composer.)
  \<^item> What \<^verbatim>\<open>end - start\<close> evaluates to: the exact integer difference of two integers
    (booleans included), the float difference of two floats, and the float difference
    after converting the integer when one operand is a float.
\<close>

theorem C4_duration_is_end_minus_start:
  assumes "name \<in> set duration_tools"
  shows "(\<forall>c out. log (snd (call_tool e name (PDict args) s)) = log s @ [(c, out)] \<longrightarrow>
            fn c = (if name = ''add_image'' then ''add_image_impl''
                    else if name = ''add_effect'' then ''add_effect_impl''
                    else ''add_sticker_impl'') \<and>
            (\<exists>d. map_of (kw c) ''duration'' = Some d \<and>
               py_sub (floats e)
                 (case map_of args ''end'' of None \<Rightarrow> PFloat (float_lit (floats e) 3) | Some v \<Rightarrow> v)
                 (case map_of args ''start'' of None \<Rightarrow> PInt 0 | Some v \<Rightarrow> v) = Inr d)) \<and>
         (\<forall>d. CAPCUT_AVAILABLE e \<and> registered (drafts s) args k folder \<and>
              (\<forall>f. (name, [f]) \<in> set TOOLS \<longrightarrow> map_of args f \<noteq> None) \<and>
              py_sub (floats e)
                 (case map_of args ''end'' of None \<Rightarrow> PFloat (float_lit (floats e) 3) | Some v \<Rightarrow> v)
                 (case map_of args ''start'' of None \<Rightarrow> PInt 0 | Some v \<Rightarrow> v) = Inr d \<longrightarrow>
            (\<exists>c out. log (snd (call_tool e name (PDict args) s)) = log s @ [(c, out)] \<and>
               map_of (kw c) ''duration'' = Some d)) \<and>
         (\<forall>i j. int_val (case map_of args ''end'' of None \<Rightarrow> PFloat (float_lit (floats e) 3) | Some v \<Rightarrow> v) = Some i \<and>
                int_val (case map_of args ''start'' of None \<Rightarrow> PInt 0 | Some v \<Rightarrow> v) = Some j \<longrightarrow>
            py_sub (floats e)
                 (case map_of args ''end'' of None \<Rightarrow> PFloat (float_lit (floats e) 3) | Some v \<Rightarrow> v)
                 (case map_of args ''start'' of None \<Rightarrow> PInt 0 | Some v \<Rightarrow> v) = Inr (PInt (i - j))) \<and>
         (\<forall>x y. (case map_of args ''end'' of None \<Rightarrow> PFloat (float_lit (floats e) 3) | Some v \<Rightarrow> v) = PFloat x \<and>
                (case map_of args ''start'' of None \<Rightarrow> PInt 0 | Some v \<Rightarrow> v) = PFloat y \<longrightarrow>
            py_sub (floats e)
                 (case map_of args ''end'' of None \<Rightarrow> PFloat (float_lit (floats e) 3) | Some v \<Rightarrow> v)
                 (case map_of args ''start'' of None \<Rightarrow> PInt 0 | Some v \<Rightarrow> v)
              = Inr (PFloat (float_sub (floats e) x y))) \<and>
         (\<forall>x j u. (case map_of args ''end'' of None \<Rightarrow> PFloat (float_lit (floats e) 3) | Some v \<Rightarrow> v) = PFloat x \<and>
                int_val (case map_of args ''start'' of None \<Rightarrow> PInt 0 | Some v \<Rightarrow> v) = Some j \<and>
                float_of_int (floats e) j = Inr u \<longrightarrow>
            py_sub (floats e)
                 (case map_of args ''end'' of None \<Rightarrow> PFloat (float_lit (floats e) 3) | Some v \<Rightarrow> v)
                 (case map_of args ''start'' of None \<Rightarrow> PInt 0 | Some v \<Rightarrow> v)
              = Inr (PFloat (float_sub (floats e) x u))) \<and>
         (\<forall>i y u. int_val (case map_of args ''end'' of None \<Rightarrow> PFloat (float_lit (floats e) 3) | Some v \<Rightarrow> v) = Some i \<and>
                (case map_of args ''start'' of None \<Rightarrow> PInt 0 | Some v \<Rightarrow> v) = PFloat y \<and>
                float_of_int (floats e) i = Inr u \<longrightarrow>
            py_sub (floats e)
                 (case map_of args ''end'' of None \<Rightarrow> PFloat (float_lit (floats e) 3) | Some v \<Rightarrow> v)
                 (case map_of args ''start'' of None \<Rightarrow> PInt 0 | Some v \<Rightarrow> v)
              = Inr (PFloat (float_sub (floats e) u y)))"
  unfolding dict_get_case[symmetric]
proof (intro conjI allI impI)
  fix c out
  assume "log (snd (call_tool e name (PDict args) s)) = log s @ [(c, out)]"
  then have l: "log (snd (dispatch e name (PDict args) s)) = log s @ [(c, out)]"
    by (simp add: call_tool_snd split: if_splits)
  from assms l show "fn c = (if name = ''add_image'' then ''add_image_impl''
                    else if name = ''add_effect'' then ''add_effect_impl''
                    else ''add_sticker_impl'')"
    unfolding duration_tools_iff
    by (elim disjE; simp only: dispatch_simps) (auto dest!: with_draft_log)
  from assms l show "\<exists>d. map_of (kw c) ''duration'' = Some d \<and>
      py_sub (floats e) (dict_get args ''end'' (PFloat (float_lit (floats e) 3)))
        (dict_get args ''start'' (PInt 0)) = Inr d"
    unfolding duration_tools_iff
    by (elim disjE; simp only: dispatch_simps)
       (auto dest!: with_draft_log dest: duration_kwargs)
next
  fix d
  assume a: "CAPCUT_AVAILABLE e \<and> registered (drafts s) args k folder \<and>
              (\<forall>f. (name, [f]) \<in> set TOOLS \<longrightarrow> map_of args f \<noteq> None) \<and>
              py_sub (floats e) (dict_get args ''end'' (PFloat (float_lit (floats e) 3)))
                (dict_get args ''start'' (PInt 0)) = Inr d"
  then have r: "registered (drafts s) args k folder" and av: "CAPCUT_AVAILABLE e"
    and d: "py_sub (floats e) (dict_get args ''end'' (PFloat (float_lit (floats e) 3)))
                (dict_get args ''start'' (PInt 0)) = Inr d" by simp_all
  from assms a show "\<exists>c out. log (snd (call_tool e name (PDict args) s)) = log s @ [(c, out)] \<and>
               map_of (kw c) ''duration'' = Some d"
    unfolding duration_tools_iff
    by (elim disjE; simp only: call_tool_snd av if_True dispatch_simps with_draft_registered[OF r])
       (auto simp: TOOLS_def add_image_kwargs_def add_effect_kwargs_def add_sticker_kwargs_def
          dict_item_def d Let_def split: sum.splits)
next
  fix i j
  assume "int_val (dict_get args ''end'' (PFloat (float_lit (floats e) 3))) = Some i \<and>
          int_val (dict_get args ''start'' (PInt 0)) = Some j"
  then show "py_sub (floats e) (dict_get args ''end'' (PFloat (float_lit (floats e) 3)))
                (dict_get args ''start'' (PInt 0)) = Inr (PInt (i - j))"
    by (simp add: py_sub_ints)
next
  fix x y
  assume "dict_get args ''end'' (PFloat (float_lit (floats e) 3)) = PFloat x \<and>
          dict_get args ''start'' (PInt 0) = PFloat y"
  then show "py_sub (floats e) (dict_get args ''end'' (PFloat (float_lit (floats e) 3)))
                (dict_get args ''start'' (PInt 0)) = Inr (PFloat (float_sub (floats e) x y))"
    by (simp add: py_sub_floats)
next
  fix x j u
  assume "dict_get args ''end'' (PFloat (float_lit (floats e) 3)) = PFloat x \<and>
          int_val (dict_get args ''start'' (PInt 0)) = Some j \<and>
          float_of_int (floats e) j = Inr u"
  then show "py_sub (floats e) (dict_get args ''end'' (PFloat (float_lit (floats e) 3)))
                (dict_get args ''start'' (PInt 0)) = Inr (PFloat (float_sub (floats e) x u))"
    by (simp add: py_sub_float_int)
next
  fix i y u
  assume "int_val (dict_get args ''end'' (PFloat (float_lit (floats e) 3))) = Some i \<and>
          dict_get args ''start'' (PInt 0) = PFloat y \<and>
          float_of_int (floats e) i = Inr u"
  then show "py_sub (floats e) (dict_get args ''end'' (PFloat (float_lit (floats e) 3)))
                (dict_get args ''start'' (PInt 0)) = Inr (PFloat (float_sub (floats e) u y))"
    by (simp add: py_sub_int_float)
qed

text \<open>An instance: \<^verbatim>\<open>start = 5\<close> and \<^verbatim>\<open>end = 2\<close> reach \<^verbatim>\<open>add_image_impl\<close> with
  the duration \<^verbatim>\<open>-3\<close>.\<close>

theorem C4_witness:
  "''add_image'' \<in> set duration_tools \<and>
   fn (fst (last (log (snd (call_tool test_env ''add_image''
      (PDict [(''draft_id'', PStr ''draft-0''), (''image_url'', PStr ''x.png''),
              (''start'', PInt 5), (''end'', PInt 2)])
      one_draft))))) = ''add_image_impl'' \<and>
   map_of (kw (fst (last (log (snd (call_tool test_env ''add_image''
      (PDict [(''draft_id'', PStr ''draft-0''), (''image_url'', PStr ''x.png''),
              (''start'', PInt 5), (''end'', PInt 2)])
      one_draft)))))) ''duration'' = Some (PInt (- 3)) \<and>
   length (log (snd (call_tool test_env ''add_image''
      (PDict [(''draft_id'', PStr ''draft-0''), (''image_url'', PStr ''x.png''),
              (''start'', PInt 5), (''end'', PInt 2)])
      one_draft))) = Suc (length (log one_draft))"
proof -
  let ?args = "[(''draft_id'', PStr ''draft-0''), (''image_url'', PStr ''x.png''),
              (''start'', PInt 5), (''end'', PInt 2)]"
  let ?s' = "snd (call_tool test_env ''add_image'' (PDict ?args) one_draft)"
  have 1: "''add_image'' \<in> set duration_tools" by (simp add: duration_tools_def)
  note c4 = C4_duration_is_end_minus_start[OF 1, of test_env ?args one_draft "''draft-0''"
      "PStr ''get_or_create_draft''"]
  have i: "int_val (case map_of ?args ''end'' of None \<Rightarrow> PFloat (float_lit (floats test_env) 3) | Some v \<Rightarrow> v) = Some 2 \<and>
      int_val (case map_of ?args ''start'' of None \<Rightarrow> PInt 0 | Some v \<Rightarrow> v) = Some 5"
    by simp
  from c4[THEN conjunct2, THEN conjunct2, THEN conjunct1, rule_format, OF i]
  have d: "py_sub (floats test_env)
      (case map_of ?args ''end'' of None \<Rightarrow> PFloat (float_lit (floats test_env) 3) | Some v \<Rightarrow> v)
      (case map_of ?args ''start'' of None \<Rightarrow> PInt 0 | Some v \<Rightarrow> v) = Inr (PInt (- 3))"
    by simp
  have 2: "CAPCUT_AVAILABLE test_env \<and>
      registered (drafts one_draft) ?args ''draft-0'' (PStr ''get_or_create_draft'') \<and>
      (\<forall>f. (''add_image'', [f]) \<in> set TOOLS \<longrightarrow> map_of ?args f \<noteq> None) \<and>
      py_sub (floats test_env)
        (case map_of ?args ''end'' of None \<Rightarrow> PFloat (float_lit (floats test_env) 3) | Some v \<Rightarrow> v)
        (case map_of ?args ''start'' of None \<Rightarrow> PInt 0 | Some v \<Rightarrow> v) = Inr (PInt (- 3))"
    using d by (simp add: test_env_simps registered_def one_draft_eq TOOLS_def)
  from c4[THEN conjunct2, THEN conjunct1, rule_format, OF 2]
  obtain c out where l: "log ?s' = log one_draft @ [(c, out)]"
    and k: "map_of (kw c) ''duration'' = Some (PInt (- 3))" by blast
  from c4[THEN conjunct1, rule_format, OF l]
  have f: "fn c = ''add_image_impl''" by simp
  from l k f 1 show ?thesis by simp
qed

text \<open>
  C5, as stated: an asset-add call that omits \<^verbatim>\<open>width\<close> or \<^verbatim>\<open>height\<close> passes the
  value captured for the draft at \<^verbatim>\<open>create_draft\<close>. The draft \<^verbatim>\<open>draft-0\<close> was created
  with width 720 and height 1280; an \<^verbatim>\<open>add_video\<close> on it that gives neither reaches
  \<^verbatim>\<open>add_video_track\<close> with width 1080 and height 1920.
\<close>

theorem C5_counterexample:
  "drafts one_draft ''draft-0'' = Some [(''folder'', PStr ''get_or_create_draft''),
                                       (''width'', PInt 720), (''height'', PInt 1280)] \<and>
   map_of [(''draft_id'', PStr ''draft-0''), (''video_url'', PStr ''x.mp4'')] ''width'' = None \<and>
   fn (fst (last (log (snd (call_tool test_env ''add_video''
       (PDict [(''draft_id'', PStr ''draft-0''), (''video_url'', PStr ''x.mp4'')]) one_draft)))))
     = ''add_video_track'' \<and>
   map_of (kw (fst (last (log (snd (call_tool test_env ''add_video''
       (PDict [(''draft_id'', PStr ''draft-0''), (''video_url'', PStr ''x.mp4'')]) one_draft))))))
     ''width'' = Some (PInt 1080) \<and>
   map_of (kw (fst (last (log (snd (call_tool test_env ''add_video''
       (PDict [(''draft_id'', PStr ''draft-0''), (''video_url'', PStr ''x.mp4'')]) one_draft))))))
     ''height'' = Some (PInt 1920)"
  by (simp add: run add_video_kwargs_def)

text \<open>
  C5, amended: for each of the seven \<^verbatim>\<open>add_*\<close> tools, the \<^verbatim>\<open>width\<close> and
  \<^verbatim>\<open>height\<close> passed to the Composer are the caller's own when the arguments give them,
  and the fixed constants 1080 and 1920 when they do not; the values stored in the session
  at \<^verbatim>\<open>create_draft\<close> are not read.
\<close>

theorem C5_width_height_constant_default:
  assumes "name \<in> set draft_tools" and "name \<noteq> ''save_draft''"
    and "log (snd (call_tool e name (PDict args) s)) = log s @ [(c, out)]"
  shows "map_of (kw c) ''width'' = Some (case map_of args ''width'' of None \<Rightarrow> PInt 1080 | Some w \<Rightarrow> w) \<and>
         map_of (kw c) ''height'' = Some (case map_of args ''height'' of None \<Rightarrow> PInt 1920 | Some h \<Rightarrow> h)"
proof -
  from assms(3) have l: "log (snd (dispatch e name (PDict args) s)) = log s @ [(c, out)]"
    by (simp add: call_tool_snd split: if_splits)
  from assms(1,2) l show ?thesis unfolding draft_tools_iff dict_get_case[symmetric]
    by (elim disjE; simp only: dispatch_simps)
       (auto dest!: with_draft_log dest: width_height_kwargs)
qed

text \<open>An instance: \<^verbatim>\<open>add_image\<close> with the width 640 and no height, on the draft created
  with 720 by 1280, passes 640 and 1920.\<close>

theorem C5_witness:
  "''add_image'' \<in> set draft_tools \<and> ''add_image'' \<noteq> ''save_draft'' \<and>
   log (snd (call_tool test_env ''add_image''
      (PDict [(''draft_id'', PStr ''draft-0''), (''image_url'', PStr ''x.png''), (''width'', PInt 640)])
      one_draft))
    = log one_draft @ [last (log (snd (call_tool test_env ''add_image''
      (PDict [(''draft_id'', PStr ''draft-0''), (''image_url'', PStr ''x.png''), (''width'', PInt 640)])
      one_draft)))] \<and>
   map_of (kw (fst (last (log (snd (call_tool test_env ''add_image''
      (PDict [(''draft_id'', PStr ''draft-0''), (''image_url'', PStr ''x.png''), (''width'', PInt 640)])
      one_draft)))))) ''width'' = Some (PInt 640) \<and>
   map_of (kw (fst (last (log (snd (call_tool test_env ''add_image''
      (PDict [(''draft_id'', PStr ''draft-0''), (''image_url'', PStr ''x.png''), (''width'', PInt 640)])
      one_draft)))))) ''height'' = Some (PInt 1920)"
proof -
  let ?args = "[(''draft_id'', PStr ''draft-0''), (''image_url'', PStr ''x.png''), (''width'', PInt 640)]"
  let ?s' = "snd (call_tool test_env ''add_image'' (PDict ?args) one_draft)"
  have 1: "''add_image'' \<in> set draft_tools" by (simp add: draft_tools_def)
  have 2: "''add_image'' \<noteq> ''save_draft''" by simp
  have 3: "log ?s' = log one_draft @ [(fst (last (log ?s')), snd (last (log ?s')))]"
    by (simp add: run add_image_kwargs_def py_sub_def to_float_def)
  from C5_width_height_constant_default[OF 1 2 3] 1 3 show ?thesis by simp
qed

text \<open>
  C6, as stated: every session carries a lifecycle state, \<^verbatim>\<open>NEW\<close> when
  \<^verbatim>\<open>create_draft\<close> stores it, \<^verbatim>\<open>COMPOSING\<close> after the first successful asset-add and
  \<^verbatim>\<open>SAVED\<close> after a successful \<^verbatim>\<open>save_draft\<close>. The session that \<^verbatim>\<open>create_draft\<close>
  stored for \<^verbatim>\<open>draft-0\<close> has the fields \<^verbatim>\<open>folder\<close>, \<^verbatim>\<open>width\<close> and \<^verbatim>\<open>height\<close> and
  no \<^verbatim>\<open>state\<close>; a successful \<^verbatim>\<open>add_video\<close> and a successful \<^verbatim>\<open>save_draft\<close> each
  leave it exactly as it was.
\<close>

theorem C6_counterexample:
  "drafts one_draft ''draft-0'' = Some [(''folder'', PStr ''get_or_create_draft''),
                                       (''width'', PInt 720), (''height'', PInt 1280)] \<and>
   map_of [(''folder'', PStr ''get_or_create_draft''), (''width'', PInt 720),
           (''height'', PInt 1280)] ''state'' = None \<and>
   succeeded (fst (call_tool test_env ''add_video''
      (PDict [(''draft_id'', PStr ''draft-0''), (''video_url'', PStr ''x.mp4'')]) one_draft)) \<and>
   drafts (snd (call_tool test_env ''add_video''
      (PDict [(''draft_id'', PStr ''draft-0''), (''video_url'', PStr ''x.mp4'')]) one_draft)) ''draft-0''
     = drafts one_draft ''draft-0'' \<and>
   succeeded (fst (call_tool test_env ''save_draft'' (PDict [(''draft_id'', PStr ''draft-0'')]) one_draft)) \<and>
   drafts (snd (call_tool test_env ''save_draft'' (PDict [(''draft_id'', PStr ''draft-0'')]) one_draft))
      ''draft-0''
     = drafts one_draft ''draft-0''"
  by (simp add: run add_video_kwargs_def save_draft_kwargs_def success_def succeeded_def)

text \<open>
  C6, amended: a draft session is the dict with the fields \<^verbatim>\<open>folder\<close>, \<^verbatim>\<open>width\<close>
  and \<^verbatim>\<open>height\<close> that \<^verbatim>\<open>create_draft\<close> stores, and nothing else: it carries no
  lifecycle state. If every session of the registry has exactly these three fields before
  a call of \<^verbatim>\<open>call_tool\<close>, every session has exactly them after it, and a call of any tool
  other than \<^verbatim>\<open>create_draft\<close> leaves the whole registry as it was, so no transition is
  ever recorded.
\<close>

theorem C6_sessions_carry_no_state:
  assumes "\<forall>k session. drafts s k = Some session \<longrightarrow> map fst session = [''folder'', ''width'', ''height'']"
  shows "(\<forall>k session. drafts (snd (call_tool e name a s)) k = Some session \<longrightarrow>
            map fst session = [''folder'', ''width'', ''height'']) \<and>
         (name \<noteq> ''create_draft'' \<longrightarrow> drafts (snd (call_tool e name a s)) = drafts s)"
proof -
  have frame: "name \<noteq> ''create_draft'' \<Longrightarrow> drafts (snd (dispatch e name a s)) = drafts s"
  proof (cases "name \<in> set draft_tools")
    case True
    then obtain impl build where "dispatch e name = with_draft e impl build"
      using dispatch_draft_tools by blast
    then show ?thesis by (simp add: with_draft_drafts)
  next
    case False
    assume "name \<noteq> ''create_draft''"
    with False show ?thesis by (simp add: dispatch_unknown)
  qed
  show ?thesis
  proof (cases "name = ''create_draft''")
    case True
    with assms show ?thesis
      by (auto simp: call_tool_snd dispatch_simps dest: create_draft_session split: if_splits)
  next
    case False
    with frame have "drafts (snd (call_tool e name a s)) = drafts s"
      by (simp add: call_tool_snd)
    with assms False show ?thesis by simp
  qed
qed

text \<open>Instances on the server that holds \<^verbatim>\<open>draft-0\<close>: a \<^verbatim>\<open>save_draft\<close> leaves the
  registry as it was, and the session a \<^verbatim>\<open>create_draft\<close> adds has the three fields.\<close>

theorem C6_witness:
  "drafts one_draft ''draft-0'' = Some [(''folder'', PStr ''get_or_create_draft''),
                                       (''width'', PInt 720), (''height'', PInt 1280)] \<and>
   drafts (snd (call_tool test_env ''save_draft'' (PDict [(''draft_id'', PStr ''draft-0'')]) one_draft))
     = drafts one_draft \<and>
   map fst (the (drafts (snd (call_tool test_env ''create_draft'' (PDict []) one_draft)) ''draft-1''))
     = [''folder'', ''width'', ''height'']"
proof -
  have 1: "\<forall>k session. drafts one_draft k = Some session \<longrightarrow>
       map fst session = [''folder'', ''width'', ''height'']"
    by (auto simp: one_draft_eq split: if_splits)
  have 2: "drafts (snd (call_tool test_env ''create_draft'' (PDict []) one_draft)) ''draft-1'' \<noteq> None"
    by (simp add: run create_draft_def digits_small)
  from C6_sessions_carry_no_state[OF 1, of test_env "''save_draft''"
      "PDict [(''draft_id'', PStr ''draft-0'')]"]
    C6_sessions_carry_no_state[OF 1, of test_env "''create_draft''" "PDict []"] 2
  show ?thesis by (auto simp: one_draft_eq)
qed

text \<open>
  C7, as stated: every success envelope of an \<^verbatim>\<open>add_*\<close> tool or of \<^verbatim>\<open>save_draft\<close>
  contains a \<^verbatim>\<open>draft_id\<close> field beside the Composer's result. A successful
  \<^verbatim>\<open>add_video\<close> and a successful \<^verbatim>\<open>save_draft\<close> on \<^verbatim>\<open>draft-0\<close> return the fields
  \<^verbatim>\<open>success\<close> and \<^verbatim>\<open>result\<close> only.
\<close>

theorem C7_counterexample:
  "fst (call_tool test_env ''add_video''
      (PDict [(''draft_id'', PStr ''draft-0''), (''video_url'', PStr ''x.mp4'')]) one_draft)
     = Inr (PDict [(''success'', PBool True), (''result'', PStr ''add_video_track'')]) \<and>
   fst (call_tool test_env ''save_draft'' (PDict [(''draft_id'', PStr ''draft-0'')]) one_draft)
     = Inr (PDict [(''success'', PBool True), (''result'', PStr ''save_draft_impl'')]) \<and>
   map_of [(''success'', PBool True), (''result'', PStr ''add_video_track'')] ''draft_id'' = None \<and>
   map_of [(''success'', PBool True), (''result'', PStr ''save_draft_impl'')] ''draft_id'' = None"
  by (simp add: run add_video_kwargs_def save_draft_kwargs_def success_def)

text \<open>
  C7, amended: every success envelope returned by an \<^verbatim>\<open>add_*\<close> tool or by
  \<^verbatim>\<open>save_draft\<close> is exactly \<^verbatim>\<open>{"success": true, "result": v}\<close>, where \<open>v\<close> is what the
  Composer call of this invocation returned; it has no \<^verbatim>\<open>draft_id\<close> field.
\<close>

theorem C7_success_envelope_shape:
  assumes "name \<in> set draft_tools" and "succeeded (fst (call_tool e name a s))"
  shows "\<exists>c v. log (snd (call_tool e name a s)) = log s @ [(c, Inr v)] \<and>
           fst (call_tool e name a s) = Inr (PDict [(''success'', PBool True), (''result'', v)])"
proof -
  from assms(1) obtain impl build where d: "dispatch e name = with_draft e impl build"
    using dispatch_draft_tools by blast
  obtain r s' where w: "with_draft e impl build a s = (r, s')"
    by (cases "with_draft e impl build a s")
  have av: "CAPCUT_AVAILABLE e" using assms(2)
    by (auto simp: call_tool_def succeeded_def unavailable_def split: if_splits)
  from av d w have c: "call_tool e name a s =
      ((case r of Inl x \<Rightarrow> Inr (fault_envelope e x) | Inr v \<Rightarrow> Inr v), s')"
    by (simp add: call_tool_def split: sum.splits)
  from with_draft_outcome[OF w] assms(2) show ?thesis unfolding c fst_conv snd_conv
    by (elim disjE exE conjE)
       (auto simp: succeeded_simps invalid_draft_id_def success_def)
qed

text \<open>An instance: a successful \<^verbatim>\<open>save_draft\<close>.\<close>

theorem C7_witness:
  "''save_draft'' \<in> set draft_tools \<and>
   succeeded (fst (call_tool test_env ''save_draft'' (PDict [(''draft_id'', PStr ''draft-0'')]) one_draft)) \<and>
   fst (call_tool test_env ''save_draft'' (PDict [(''draft_id'', PStr ''draft-0'')]) one_draft)
     = Inr (PDict [(''success'', PBool True), (''result'', PStr ''save_draft_impl'')])"
proof -
  let ?r = "call_tool test_env ''save_draft'' (PDict [(''draft_id'', PStr ''draft-0'')]) one_draft"
  have 1: "''save_draft'' \<in> set draft_tools" by (simp add: draft_tools_def)
  have 2: "succeeded (fst ?r)" by (simp add: run save_draft_kwargs_def success_def succeeded_def)
  have 3: "snd (last (log (snd ?r))) = Inr (PStr ''save_draft_impl'')"
    by (simp add: run save_draft_kwargs_def)
  from C7_success_envelope_shape[OF 1 2] 1 2 3 show ?thesis by auto
qed

text \<open>
  C3, as stated: a call that lacks a field the catalog marks required returns an error
  envelope that is distinguishable from a generic uncaught fault, the missing field not
  being swallowed by the catch-all. On \<^verbatim>\<open>add_video\<close> without \<^verbatim>\<open>video_url\<close> the
  handler itself raises \<^verbatim>\<open>KeyError('video_url')\<close>, and what \<^verbatim>\<open>call_tool\<close> returns is
  the envelope its \<^verbatim>\<open>except Exception\<close> clause builds from that exception, with the
  \<^verbatim>\<open>traceback\<close> field of every uncaught fault.
\<close>

theorem C3_counterexample:
  "dispatch test_env ''add_video'' (PDict [(''draft_id'', PStr ''draft-0'')]) one_draft
     = (Inl (KeyError ''video_url''), one_draft) \<and>
   call_tool test_env ''add_video'' (PDict [(''draft_id'', PStr ''draft-0'')]) one_draft
     = (Inr (fault_envelope test_env (KeyError ''video_url'')), one_draft) \<and>
   fault_envelope test_env (KeyError ''video_url'')
     = PDict [(''success'', PBool False),
              (''error'', PStr (quoted ''video_url'')),
              (''traceback'', PStr ''Traceback (most recent call last): KeyError'')]"
  by (simp add: run add_video_kwargs_def fault_envelope_def KeyError_def)

text \<open>
  C3, amended: the handlers check no required field; a missing one surfaces as the
  \<^verbatim>\<open>KeyError\<close> of the dict lookup and goes through the catch-all. Let the modules be
  available, and let \<open>g\<close> be the first field, in the order of the catalog entry of the
  tool, that the entry marks required and the arguments lack.
  \<^item> \<^verbatim>\<open>save_draft\<close> (whose required field is \<^verbatim>\<open>draft_id\<close>) returns
    \<^verbatim>\<open>{"success": false, "error": "Invalid draft_id"}\<close>.
  \<^item> Every \<^verbatim>\<open>add_*\<close> tool but \<^verbatim>\<open>add_text\<close>, on a registered draft, raises
    \<^verbatim>\<open>KeyError(g)\<close> and \<^verbatim>\<open>call_tool\<close> returns
    \<^verbatim>\<open>{"success": false, "error": "'g'", "traceback": ...}\<close>, the error being the name
    of \<open>g\<close> between single quotes; the server is unchanged, no Composer call is made.
  \<^item> \<^verbatim>\<open>add_text\<close>, on a registered draft, builds its style list first. When that
    succeeds (in particular when \<^verbatim>\<open>text_styles\<close> is absent) the result is the same
    \<^verbatim>\<open>KeyError\<close> envelope for \<open>g\<close>; when it raises \<open>x\<close>, the result is the catch-all
    envelope of \<open>x\<close> and the missing field is not reported at all.
\<close>

theorem C3_missing_required_field:
  assumes "CAPCUT_AVAILABLE e" and "(name, required) \<in> set TOOLS"
    and "first_missing required args = Some g"
  shows "(name = ''save_draft'' \<longrightarrow>
            call_tool e name (PDict args) s =
              (Inr (PDict [(''success'', PBool False), (''error'', PStr ''Invalid draft_id'')]), s)) \<and>
         (name \<noteq> ''save_draft'' \<and> name \<noteq> ''add_text'' \<and> registered (drafts s) args k folder \<longrightarrow>
            dispatch e name (PDict args) s = (Inl (KeyError g), s) \<and>
            call_tool e name (PDict args) s =
              (Inr (PDict [(''success'', PBool False), (''error'', PStr (quoted g)),
                           (''traceback'', PStr (format_exc e (KeyError g)))]), s)) \<and>
         (name = ''add_text'' \<and> registered (drafts s) args k folder \<longrightarrow>
            (\<forall>ts. text_styles_of e args = Inr ts \<longrightarrow>
               dispatch e name (PDict args) s = (Inl (KeyError g), s) \<and>
               call_tool e name (PDict args) s =
                 (Inr (PDict [(''success'', PBool False), (''error'', PStr (quoted g)),
                              (''traceback'', PStr (format_exc e (KeyError g)))]), s)) \<and>
            (\<forall>x. text_styles_of e args = Inl x \<longrightarrow>
               call_tool e name (PDict args) s =
                 (Inr (PDict [(''success'', PBool False), (''error'', PStr (exn_str x)),
                              (''traceback'', PStr (format_exc e x))]), s)))"
proof -
  have step: "dispatch e name (PDict args) s = (Inl x, s) \<and>
      call_tool e name (PDict args) s =
        (Inr (PDict [(''success'', PBool False), (''error'', PStr (exn_str x)),
                     (''traceback'', PStr (format_exc e x))]), s)"
    if "dispatch e name = with_draft e impl build" "build args (PStr k) folder = Inl x"
       "registered (drafts s) args k folder" for impl build x
  proof -
    from that have d: "dispatch e name (PDict args) s = (Inl x, s)"
      using raised_in_build[OF assms(1) that(3)] by simp
    with call_tool_raised[OF assms(1), of name "PDict args" s x] show ?thesis by simp
  qed
  have key: "exn_str (KeyError g) = quoted g" by (simp add: KeyError_def)
  from assms(2) consider
      "name = ''create_draft''" "required = []"
    | "name = ''add_video''" "required = [''video_url'']"
    | "name = ''add_audio''" "required = [''audio_url'']"
    | "name = ''add_image''" "required = [''image_url'']"
    | "name = ''add_text''" "required = [''text'', ''start'', ''end'']"
    | "name = ''add_subtitle''" "required = [''srt_path'']"
    | "name = ''add_effect''" "required = [''effect_type'']"
    | "name = ''add_sticker''" "required = [''sticker_url'']"
    | "name = ''save_draft''" "required = [''draft_id'']"
    unfolding TOOLS_iff by (elim disjE conjE) simp_all
  then show ?thesis
  proof cases
    case 1
    with assms(3) show ?thesis by (simp add: first_missing_def)
  next
    case 2
    with assms(3) have m: "g = ''video_url''" "map_of args ''video_url'' = None"
      using first_missing_single by blast+
    from step[of "''add_video_track''" "add_video_kwargs (floats e)" "KeyError ''video_url''"]
    show ?thesis by (simp add: 2 m dispatch_simps missing_required key[unfolded m])
  next
    case 3
    with assms(3) have m: "g = ''audio_url''" "map_of args ''audio_url'' = None"
      using first_missing_single by blast+
    from step[of "''add_audio_track''" "add_audio_kwargs (floats e)" "KeyError ''audio_url''"]
    show ?thesis by (simp add: 3 m dispatch_simps missing_required key[unfolded m])
  next
    case 4
    with assms(3) have m: "g = ''image_url''" "map_of args ''image_url'' = None"
      using first_missing_single by blast+
    from step[of "''add_image_impl''" "add_image_kwargs (floats e)" "KeyError ''image_url''"]
    show ?thesis by (simp add: 4 m dispatch_simps missing_required key[unfolded m])
  next
    case 5
    have d: "dispatch e name = with_draft e ''add_text_impl'' (add_text_kwargs e)"
      by (simp add: 5 dispatch_simps)
    have a: "dispatch e name (PDict args) s = (Inl (KeyError g), s) \<and>
        call_tool e name (PDict args) s =
          (Inr (PDict [(''success'', PBool False), (''error'', PStr (quoted g)),
                       (''traceback'', PStr (format_exc e (KeyError g)))]), s)"
      if "registered (drafts s) args k folder" "text_styles_of e args = Inr ts" for ts
      using step[OF d missing_required_text[OF that(2) assms(3)[unfolded 5]] that(1)]
      by (simp add: key)
    have b: "call_tool e name (PDict args) s =
          (Inr (PDict [(''success'', PBool False), (''error'', PStr (exn_str x)),
                       (''traceback'', PStr (format_exc e x))]), s)"
      if "registered (drafts s) args k folder" "text_styles_of e args = Inl x" for x
      using step[OF d failed_text_styles[OF that(2)] that(1)] by simp
    from a b show ?thesis by (simp add: 5)
  next
    case 6
    with assms(3) have m: "g = ''srt_path''" "map_of args ''srt_path'' = None"
      using first_missing_single by blast+
    from step[of "''add_subtitle_impl''" "add_subtitle_kwargs (floats e)" "KeyError ''srt_path''"]
    show ?thesis by (simp add: 6 m dispatch_simps missing_required key[unfolded m])
  next
    case 7
    with assms(3) have m: "g = ''effect_type''" "map_of args ''effect_type'' = None"
      using first_missing_single by blast+
    from step[of "''add_effect_impl''" "add_effect_kwargs (floats e)" "KeyError ''effect_type''"]
    show ?thesis by (simp add: 7 m dispatch_simps missing_required key[unfolded m])
  next
    case 8
    with assms(3) have m: "g = ''sticker_url''" "map_of args ''sticker_url'' = None"
      using first_missing_single by blast+
    from step[of "''add_sticker_impl''" "add_sticker_kwargs (floats e)" "KeyError ''sticker_url''"]
    show ?thesis by (simp add: 8 m dispatch_simps missing_required key[unfolded m])
  next
    case 9
    with assms(3) have "map_of args ''draft_id'' = None"
      using first_missing_single by blast
    then have "with_draft e ''save_draft_impl'' save_draft_kwargs (PDict args) s
        = (Inr invalid_draft_id, s)"
      by (intro with_draft_invalid[OF _ refl]) simp
    with assms(1) show ?thesis
      by (simp add: 9 call_tool_def dispatch_simps invalid_draft_id_def)
  qed
qed

text \<open>
  Instances: \<^verbatim>\<open>add_text\<close> with \<^verbatim>\<open>text\<close> but neither \<^verbatim>\<open>start\<close> nor \<^verbatim>\<open>end\<close>
  reports \<^verbatim>\<open>start\<close>, the first of the two; \<^verbatim>\<open>add_text\<close> without \<^verbatim>\<open>text\<close> and
  with \<^verbatim>\<open>text_styles = 5\<close> reports that an \<^verbatim>\<open>int\<close> is not iterable.
\<close>

theorem C3_witness:
  "CAPCUT_AVAILABLE test_env \<and>
   (''add_text'', [''text'', ''start'', ''end'']) \<in> set TOOLS \<and>
   first_missing [''text'', ''start'', ''end'']
      [(''draft_id'', PStr ''draft-0''), (''text'', PStr ''hi'')] = Some ''start'' \<and>
   registered (drafts one_draft) [(''draft_id'', PStr ''draft-0''), (''text'', PStr ''hi'')]
      ''draft-0'' (PStr ''get_or_create_draft'') \<and>
   call_tool test_env ''add_text''
      (PDict [(''draft_id'', PStr ''draft-0''), (''text'', PStr ''hi'')]) one_draft
     = (Inr (PDict [(''success'', PBool False), (''error'', PStr (quoted ''start'')),
                    (''traceback'', PStr ''Traceback (most recent call last): KeyError'')]),
        one_draft) \<and>
   call_tool test_env ''add_text''
      (PDict [(''draft_id'', PStr ''draft-0''), (''text_styles'', PInt 5)]) one_draft
     = (Inr (PDict [(''success'', PBool False),
                    (''error'', PStr (quoted ''int'' @ '' object is not iterable'')),
                    (''traceback'', PStr ''Traceback (most recent call last): TypeError'')]),
        one_draft)"
proof -
  let ?a = "[(''draft_id'', PStr ''draft-0''), (''text'', PStr ''hi'')]"
  let ?b = "[(''draft_id'', PStr ''draft-0''), (''text_styles'', PInt 5)]"
  have 1: "CAPCUT_AVAILABLE test_env" by (simp add: test_env_simps)
  have 2: "(''add_text'', [''text'', ''start'', ''end'']) \<in> set TOOLS" by (simp add: TOOLS_def)
  have 3: "first_missing [''text'', ''start'', ''end''] ?a = Some ''start''"
    by (simp add: first_missing_def)
  have b3: "first_missing [''text'', ''start'', ''end''] ?b = Some ''text''"
    by (simp add: first_missing_def)
  have 4: "registered (drafts one_draft) ?a ''draft-0'' (PStr ''get_or_create_draft'')"
    by (simp add: registered_def one_draft_eq)
  have b4: "registered (drafts one_draft) ?b ''draft-0'' (PStr ''get_or_create_draft'')"
    by (simp add: registered_def one_draft_eq)
  have 5: "text_styles_of test_env ?a = Inr []" by (simp add: text_styles_of_def)
  have b5: "text_styles_of test_env ?b = Inl (TypeError (quoted ''int'' @ '' object is not iterable''))"
    by (simp add: text_styles_of_def py_iter_def)
  from C3_missing_required_field[OF 1 2 3, of one_draft "''draft-0''" "PStr ''get_or_create_draft''"]
    4 5
  have A: "call_tool test_env ''add_text'' (PDict ?a) one_draft
     = (Inr (PDict [(''success'', PBool False), (''error'', PStr (quoted ''start'')),
                    (''traceback'', PStr (format_exc test_env (KeyError ''start'')))]), one_draft)"
    by simp
  from C3_missing_required_field[OF 1 2 b3, of one_draft "''draft-0''" "PStr ''get_or_create_draft''"]
    b4 b5
  have B: "call_tool test_env ''add_text'' (PDict ?b) one_draft
     = (Inr (PDict [(''success'', PBool False),
                    (''error'', PStr (exn_str (TypeError (quoted ''int'' @ '' object is not iterable'')))),
                    (''traceback'', PStr (format_exc test_env
                        (TypeError (quoted ''int'' @ '' object is not iterable''))))]), one_draft)"
    by simp
  from A B 1 2 3 4 show ?thesis
    by (simp add: test_env_simps KeyError_def TypeError_def)
qed

text \<open>
  C9, as stated: for every tool name and every arguments value, unknown names and
  \<^verbatim>\<open>None\<close> arguments included, the SSE handler and the stdio handler return the same
  serialized content. For the unknown name \<^verbatim>\<open>foo\<close> the SSE handler serializes the
  envelope of \<^verbatim>\<open>call_tool\<close> and the stdio handler a dict of its own, without
  \<^verbatim>\<open>success\<close>. For \<^verbatim>\<open>create_draft\<close> with \<^verbatim>\<open>None\<close> the stdio handler passes
  \<^verbatim>\<open>{}\<close> and a draft is created, while the SSE handler passes \<^verbatim>\<open>None\<close> and the call
  fails on \<^verbatim>\<open>args.get\<close>.
\<close>

theorem C9_counterexample:
  \<open>fst (sse_call_tool test_env ''foo'' (PDict []) one_draft)
     = Inr [TextContent ''text'' ''{"success": false, "error": "Unknown tool: foo"}''] \<and>
   fst (handle_call_tool test_env ''foo'' (PDict []) one_draft)
     = Inr [TextContent ''text'' ''{"error": "Unknown tool: foo"}''] \<and>
   fst (sse_call_tool test_env ''foo'' (PDict []) one_draft)
     \<noteq> fst (handle_call_tool test_env ''foo'' (PDict []) one_draft) \<and>
   succeeded (fst (call_tool test_env ''create_draft'' (or_empty test_floats PNone) empty_server)) \<and>
   \<not> succeeded (fst (call_tool test_env ''create_draft'' PNone empty_server)) \<and>
   fst (sse_call_tool test_env ''create_draft'' PNone empty_server)
     \<noteq> fst (handle_call_tool test_env ''create_draft'' PNone empty_server)\<close>
  by code_simp

text \<open>
  C9, amended: for each of the nine tool names of the catalog and every dict of
  arguments, the stdio handler and the SSE handler return the same content, the
  serialization with \<^verbatim>\<open>ensure_ascii=False\<close> of the envelope that \<^verbatim>\<open>call_tool\<close> returns
  for that name and those arguments, and leave the server in the same state.
\<close>

theorem C9_handlers_agree:
  assumes "name = ''create_draft'' \<or> name \<in> set draft_tools"
  shows "handle_call_tool e name (PDict args) s = reply e (call_tool e name (PDict args) s) \<and>
         sse_call_tool e name (PDict args) s = reply e (call_tool e name (PDict args) s)"
  using assms unfolding draft_tools_iff
  by (elim disjE) (simp_all add: handle_call_tool_def sse_call_tool_def or_empty_dict)

text \<open>An instance: a successful \<^verbatim>\<open>add_video\<close> through both handlers.\<close>

theorem C9_witness:
  \<open>(''add_video'' = ''create_draft'' \<or> ''add_video'' \<in> set draft_tools) \<and>
   handle_call_tool test_env ''add_video''
      (PDict [(''draft_id'', PStr ''draft-0''), (''video_url'', PStr ''x.mp4'')]) one_draft
     = sse_call_tool test_env ''add_video''
      (PDict [(''draft_id'', PStr ''draft-0''), (''video_url'', PStr ''x.mp4'')]) one_draft \<and>
   fst (sse_call_tool test_env ''add_video''
      (PDict [(''draft_id'', PStr ''draft-0''), (''video_url'', PStr ''x.mp4'')]) one_draft)
     = Inr [TextContent ''text'' ''{"success": true, "result": "add_video_track"}'']\<close>
proof -
  let ?a = "PDict [(''draft_id'', PStr ''draft-0''), (''video_url'', PStr ''x.mp4'')]"
  have 1: "''add_video'' = ''create_draft'' \<or> ''add_video'' \<in> set draft_tools"
    by (simp add: draft_tools_def)
  have 2: "fst (call_tool test_env ''add_video'' ?a one_draft)
      = Inr (PDict [(''success'', PBool True), (''result'', PStr ''add_video_track'')])"
    by (simp add: run add_video_kwargs_def success_def)
  have 3: \<open>json_dumps (float_repr (floats test_env)) False
        (PDict [(''success'', PBool True), (''result'', PStr ''add_video_track'')])
      = Inr ''{"success": true, "result": "add_video_track"}''\<close>
    by code_simp
  have 4: \<open>fst (reply test_env (call_tool test_env ''add_video'' ?a one_draft))
      = Inr [TextContent ''text'' ''{"success": true, "result": "add_video_track"}'']\<close>
    using 2 3 by (cases "call_tool test_env ''add_video'' ?a one_draft") (simp add: reply_def)
  from C9_handlers_agree[OF 1, of test_env _ one_draft] 1 4 show ?thesis by simp
qed

end
